theory Spec2Isabelle
  imports Main
begin

section \<open>Plugin configuration (config.go)\<close>

text \<open>
  The Go struct \<^verbatim>\<open>PluginConfig\<close>. Strings are Go strings, \<^verbatim>\<open>int\<close> fields are
  integers (only compared with 0 and copied here, so no wrap-around is involved), and a
  \<^verbatim>\<open>time.Duration\<close> is its number of nanoseconds.
\<close>

record PluginConfig =
  S3Bucket :: string
  S3Key :: string
  S3Region :: string
  S3Endpoint :: string
  RedisAddr :: string
  RedisPassword :: string
  RedisDB :: int
  RedisKeyPrefix :: string
  MemoryCacheSize :: int
  RedisTTL :: int
  TenantExtractionMode :: string
  TenantHeaderName :: string
  RedisTimeout :: int
  S3Timeout :: int

text \<open>
  The body of \<^verbatim>\<open>Merge\<close> on the two dereferenced structs: \<^verbatim>\<open>newConfig := *parentConfig\<close>
  followed by the fourteen guarded assignments, in source order.
\<close>

definition mergeConfig :: "PluginConfig \<Rightarrow> PluginConfig \<Rightarrow> PluginConfig" where
  "mergeConfig parentConfig childConfig =
    (let newConfig = parentConfig;
         newConfig = (if S3Bucket childConfig \<noteq> ''''
                      then newConfig\<lparr>S3Bucket := S3Bucket childConfig\<rparr> else newConfig);
         newConfig = (if S3Key childConfig \<noteq> ''''
                      then newConfig\<lparr>S3Key := S3Key childConfig\<rparr> else newConfig);
         newConfig = (if S3Region childConfig \<noteq> ''''
                      then newConfig\<lparr>S3Region := S3Region childConfig\<rparr> else newConfig);
         newConfig = (if S3Endpoint childConfig \<noteq> ''''
                      then newConfig\<lparr>S3Endpoint := S3Endpoint childConfig\<rparr> else newConfig);
         newConfig = (if RedisAddr childConfig \<noteq> ''''
                      then newConfig\<lparr>RedisAddr := RedisAddr childConfig\<rparr> else newConfig);
         newConfig = (if RedisPassword childConfig \<noteq> ''''
                      then newConfig\<lparr>RedisPassword := RedisPassword childConfig\<rparr> else newConfig);
         newConfig = (if RedisDB childConfig \<noteq> 0
                      then newConfig\<lparr>RedisDB := RedisDB childConfig\<rparr> else newConfig);
         newConfig = (if RedisKeyPrefix childConfig \<noteq> ''''
                      then newConfig\<lparr>RedisKeyPrefix := RedisKeyPrefix childConfig\<rparr> else newConfig);
         newConfig = (if MemoryCacheSize childConfig \<noteq> 0
                      then newConfig\<lparr>MemoryCacheSize := MemoryCacheSize childConfig\<rparr> else newConfig);
         newConfig = (if RedisTTL childConfig \<noteq> 0
                      then newConfig\<lparr>RedisTTL := RedisTTL childConfig\<rparr> else newConfig);
         newConfig = (if TenantExtractionMode childConfig \<noteq> ''''
                      then newConfig\<lparr>TenantExtractionMode := TenantExtractionMode childConfig\<rparr>
                      else newConfig);
         newConfig = (if TenantHeaderName childConfig \<noteq> ''''
                      then newConfig\<lparr>TenantHeaderName := TenantHeaderName childConfig\<rparr>
                      else newConfig);
         newConfig = (if RedisTimeout childConfig \<noteq> 0
                      then newConfig\<lparr>RedisTimeout := RedisTimeout childConfig\<rparr> else newConfig);
         newConfig = (if S3Timeout childConfig \<noteq> 0
                      then newConfig\<lparr>S3Timeout := S3Timeout childConfig\<rparr> else newConfig)
     in newConfig)"

text \<open>
  \<^verbatim>\<open>Merge\<close> receives and returns pointers. The allocated \<^verbatim>\<open>PluginConfig\<close> objects form
  a store: the object at address \<open>a\<close> is \<open>h ! a\<close>, and \<^verbatim>\<open>&newConfig\<close> is a fresh address at
  the end of the store. Dereferencing an address that holds no object (a nil pointer)
  panics: the result is \<open>None\<close>.
\<close>

type_synonym config_store = "PluginConfig list"

definition Merge :: "config_store \<Rightarrow> nat \<Rightarrow> nat \<Rightarrow> (nat \<times> config_store) option" where
  "Merge h parent child =
    (if parent < length h \<and> child < length h
     then Some (length h, h @ [mergeConfig (h ! parent) (h ! child)])
     else None)"

section \<open>LocalCache: the in-process LRU\<close>

text \<open>
  Modelled from the spec: the type \<^verbatim>\<open>lru.Cache[string, string]\<close> and its operations
  \<^verbatim>\<open>New\<close>, \<^verbatim>\<open>Get\<close> and \<^verbatim>\<open>Add\<close> come from the imported package golang-lru, whose code is
  not part of the sources. The model follows section 4.1 of the specification: a capacity
  fixed at construction, a recency order, \<^verbatim>\<open>Get\<close> on a hit refreshes recency, inserting a
  new key into a full cache evicts the least recently used entry. The recency list has
  the most recently used entry first; the entry evicted is the last one.
\<close>

record lru_cache =
  lru_size :: nat
  evictList :: "(string \<times> string) list"

definition lru_New :: "int \<Rightarrow> lru_cache option" where
  "lru_New n = (if n \<le> 0 then None else Some \<lparr>lru_size = nat n, evictList = []\<rparr>)"

definition moveToFront :: "string \<Rightarrow> string \<Rightarrow> (string \<times> string) list \<Rightarrow> (string \<times> string) list" where
  "moveToFront key val l = (key, val) # filter (\<lambda>e. fst e \<noteq> key) l"

definition lru_Get :: "lru_cache \<Rightarrow> string \<Rightarrow> string option \<times> lru_cache" where
  "lru_Get c key =
    (case map_of (evictList c) key of
       None \<Rightarrow> (None, c)
     | Some val \<Rightarrow> (Some val, c\<lparr>evictList := moveToFront key val (evictList c)\<rparr>))"

definition lru_Add :: "lru_cache \<Rightarrow> string \<Rightarrow> string \<Rightarrow> lru_cache" where
  "lru_Add c key val =
    (case map_of (evictList c) key of
       Some old \<Rightarrow> c\<lparr>evictList := moveToFront key val (evictList c)\<rparr>
     | None \<Rightarrow>
         (let l = (key, val) # evictList c
          in if length l > lru_size c then c\<lparr>evictList := butlast l\<rparr>
             else c\<lparr>evictList := l\<rparr>))"

text \<open>Reading a key without touching recency (used only to state properties).\<close>

definition lru_Peek :: "lru_cache \<Rightarrow> string \<Rightarrow> string option" where
  "lru_Peek c key = map_of (evictList c) key"

text \<open>The representation invariant of a cache built by \<open>lru_New\<close> and used through
  \<open>lru_Get\<close> and \<open>lru_Add\<close>.\<close>

definition lru_wf :: "lru_cache \<Rightarrow> bool" where
  "lru_wf c = (0 < lru_size c \<and> length (evictList c) \<le> lru_size c
               \<and> distinct (map fst (evictList c)))"

section \<open>Errors, log lines and the record of tier operations\<close>

text \<open>
  A Go \<^verbatim>\<open>error\<close> value, by where it was made: \<open>Errorf\<close> for the errors this package
  builds with \<^verbatim>\<open>fmt.Errorf\<close>, the others for errors handed back by the Redis client, by
  \<^verbatim>\<open>GetObjectWithContext\<close>, by \<^verbatim>\<open>io.ReadAll\<close> and by \<^verbatim>\<open>json.Unmarshal\<close>. Each carries its
  message; \<open>Error\<close> is the method \<^verbatim>\<open>Error()\<close> that \<^verbatim>\<open>%v\<close> prints.
\<close>

datatype error =
    Errorf string
  | RedisError string
  | S3Error string
  | ReadError string
  | UnmarshalError string

fun Error :: "error \<Rightarrow> string" where
  "Error (Errorf s) = s"
| "Error (RedisError s) = s"
| "Error (S3Error s) = s"
| "Error (ReadError s) = s"
| "Error (UnmarshalError s) = s"

datatype log_line = Debugf string | Warnf string

text \<open>
  The operations a lookup issues against the three tiers, recorded in the order they are
  issued: \<open>MemoryGet\<close> and \<open>MemoryAdd\<close> on the in-process cache, \<open>RedisGET\<close> and
  \<open>RedisSET\<close> (key, value, TTL) on the shared cache, \<open>S3GetObject\<close> (bucket, key) on the
  authoritative store.
\<close>

datatype tier_call =
    MemoryGet string
  | MemoryAdd string string
  | RedisGET string
  | RedisSET string string int
  | S3GetObject string string

section \<open>SharedCache: the Redis client\<close>

text \<open>
  Modelled from the spec: the client type \<^verbatim>\<open>redis.Client\<close> and the server behind it are
  external to the sources. Following sections 4.2 and 6 of the specification, the shared
  cache is a key-value store with \<^verbatim>\<open>GET key\<close> and \<^verbatim>\<open>SET key value EX ttl\<close>; a miss
  (\<^verbatim>\<open>redis.Nil\<close>) is distinct from an operational error. \<open>redis_data\<close> holds the unexpired
  keys; \<open>redis_get_fault\<close> and \<open>redis_set_fault\<close> say whether the next \<^verbatim>\<open>GET\<close>,
  respectively \<^verbatim>\<open>SET\<close>, fails (time-out, connection error) and with which message.
\<close>

record redis_client =
  redis_data :: "string \<rightharpoonup> string"
  redis_get_fault :: "string option"
  redis_set_fault :: "string option"

datatype redis_reply = RedisNil | RedisFailed string | RedisValue string

definition redis_Get :: "redis_client \<Rightarrow> string \<Rightarrow> redis_reply" where
  "redis_Get cl key =
    (case redis_get_fault cl of
       Some e \<Rightarrow> RedisFailed e
     | None \<Rightarrow> (case redis_data cl key of None \<Rightarrow> RedisNil | Some v \<Rightarrow> RedisValue v))"

definition redis_Set ::
  "redis_client \<Rightarrow> string \<Rightarrow> string \<Rightarrow> int \<Rightarrow> string option \<times> redis_client" where
  "redis_Set cl key val ttl =
    (case redis_set_fault cl of
       Some e \<Rightarrow> (Some e, cl)
     | None \<Rightarrow> (None, cl\<lparr>redis_data := (redis_data cl)(key \<mapsto> val)\<rparr>))"

section \<open>AuthoritativeStore: the S3 client\<close>

record TenantShardMapping =
  TenantID :: string
  ShardID :: string

record MappingData =
  Mappings :: "TenantShardMapping list"

text \<open>
  Modelled from the spec: the client type \<^verbatim>\<open>s3.S3\<close>, \<^verbatim>\<open>io.ReadAll\<close> and \<^verbatim>\<open>json.Unmarshal\<close>
  are external to the sources. Following sections 4.3 and 6 of the specification, fetching
  the object at a bucket and key either fails at the request, fails while the body is
  read, yields a body that does not parse, or yields the parsed mapping document.
\<close>

datatype s3_outcome =
    GetObjectFails string
  | ReadAllFails string
  | UnmarshalFails string
  | Unmarshalled MappingData

type_synonym s3_client = "string \<Rightarrow> string \<Rightarrow> s3_outcome"

section \<open>The filter (config.go, filter.go)\<close>

text \<open>
  The struct \<^verbatim>\<open>ShardRouterFilter\<close>. A nil pointer is \<open>None\<close>. The fields \<open>calls\<close> and
  \<open>logs\<close> are not in the struct: they record the tier operations issued and the lines
  written through \<^verbatim>\<open>api.LogDebugf\<close> and \<^verbatim>\<open>api.LogWarnf\<close>, oldest first.
\<close>

record ShardRouterFilter =
  config :: PluginConfig
  memoryCache :: "lru_cache option"
  redisClient :: "redis_client option"
  s3Client :: "s3_client option"
  currentShardID :: string
  calls :: "tier_call list"
  logs :: "log_line list"

definition LogDebugf :: "string \<Rightarrow> ShardRouterFilter \<Rightarrow> ShardRouterFilter" where
  "LogDebugf msg f = f\<lparr>logs := logs f @ [Debugf msg]\<rparr>"

definition LogWarnf :: "string \<Rightarrow> ShardRouterFilter \<Rightarrow> ShardRouterFilter" where
  "LogWarnf msg f = f\<lparr>logs := logs f @ [Warnf msg]\<rparr>"

definition issue :: "tier_call \<Rightarrow> ShardRouterFilter \<Rightarrow> ShardRouterFilter" where
  "issue c f = f\<lparr>calls := calls f @ [c]\<rparr>"

text \<open>
  \<^verbatim>\<open>filterFactory\<close>: a panic is \<open>None\<close>. The Redis client and the outcome of
  \<^verbatim>\<open>session.NewSession\<close> (\<open>None\<close> when it fails) are given by the environment.
\<close>

definition filterFactory ::
  "PluginConfig \<Rightarrow> redis_client \<Rightarrow> s3_client option \<Rightarrow> ShardRouterFilter option" where
  "filterFactory conf redis sess =
    (case lru_New (MemoryCacheSize conf) of
       None \<Rightarrow> None
     | Some cache \<Rightarrow>
         (case sess of
            None \<Rightarrow> None
          | Some s3 \<Rightarrow>
              Some \<lparr>config = conf, memoryCache = Some cache, redisClient = Some redis,
                    s3Client = Some s3, currentShardID = [], calls = [], logs = []\<rparr>))"

text \<open>A Go result \<^verbatim>\<open>(string, error)\<close> is a pair whose second part is \<open>None\<close> for \<^verbatim>\<open>nil\<close>.\<close>

definition lookupInMemoryCache ::
  "ShardRouterFilter \<Rightarrow> string \<Rightarrow> (string \<times> bool) \<times> ShardRouterFilter" where
  "lookupInMemoryCache f tenantID =
    (case memoryCache f of
       Some cache \<Rightarrow>
         (case lru_Get cache tenantID of
            (Some shardID, cache') \<Rightarrow>
              ((shardID, True),
               LogDebugf (''Memory cache hit for tenant: '' @ tenantID @ '' -> shard: '' @ shardID)
                 (issue (MemoryGet tenantID) (f\<lparr>memoryCache := Some cache'\<rparr>)))
          | (None, cache') \<Rightarrow>
              (([], False),
               LogDebugf (''Memory cache miss for tenant: '' @ tenantID)
                 (issue (MemoryGet tenantID) (f\<lparr>memoryCache := Some cache'\<rparr>))))
     | None \<Rightarrow> (([], False), LogDebugf (''Memory cache miss for tenant: '' @ tenantID) f))"

definition lookupInRedisCache ::
  "ShardRouterFilter \<Rightarrow> string \<Rightarrow> (string \<times> error option) \<times> ShardRouterFilter" where
  "lookupInRedisCache f tenantID =
    (case redisClient f of
       None \<Rightarrow> (([], Some (Errorf ''redis client not initialized'')), f)
     | Some client \<Rightarrow>
         (let key = RedisKeyPrefix (config f) @ tenantID;
              f = issue (RedisGET key) f
          in case redis_Get client key of
               RedisNil \<Rightarrow>
                 (([], None), LogDebugf (''Redis cache miss for tenant: '' @ tenantID) f)
             | RedisFailed e \<Rightarrow>
                 (([], Some (RedisError e)),
                  LogWarnf (''Redis lookup error for tenant '' @ tenantID @ '': '' @ e) f)
             | RedisValue shardID \<Rightarrow>
                 ((shardID, None),
                  LogDebugf (''Redis cache hit for tenant: '' @ tenantID @ '' -> shard: '' @ shardID)
                    f)))"

definition cacheInRedis ::
  "ShardRouterFilter \<Rightarrow> string \<Rightarrow> string \<Rightarrow> error option \<times> ShardRouterFilter" where
  "cacheInRedis f tenantID shardID =
    (case redisClient f of
       None \<Rightarrow> (Some (Errorf ''redis client not initialized''), f)
     | Some client \<Rightarrow>
         (let key = RedisKeyPrefix (config f) @ tenantID;
              f = issue (RedisSET key shardID (RedisTTL (config f))) f
          in case redis_Set client key shardID (RedisTTL (config f)) of
               (Some e, client') \<Rightarrow>
                 (Some (RedisError e),
                  LogWarnf (''Failed to cache in Redis for tenant '' @ tenantID @ '': '' @ e)
                    (f\<lparr>redisClient := Some client'\<rparr>))
             | (None, client') \<Rightarrow>
                 (None,
                  LogDebugf (''Cached in Redis: tenant '' @ tenantID @ '' -> shard '' @ shardID)
                    (f\<lparr>redisClient := Some client'\<rparr>))))"

text \<open>The loop of \<^verbatim>\<open>lookupInS3\<close> over \<^verbatim>\<open>mappingData.Mappings\<close>: it returns at the first
  mapping whose \<^verbatim>\<open>TenantID\<close> equals the tenant, \<open>None\<close> when the loop runs to its end.\<close>

fun searchMappings :: "TenantShardMapping list \<Rightarrow> string \<Rightarrow> string option" where
  "searchMappings [] tenantID = None"
| "searchMappings (mapping # rest) tenantID =
    (if TenantID mapping = tenantID then Some (ShardID mapping)
     else searchMappings rest tenantID)"

definition lookupInS3 ::
  "ShardRouterFilter \<Rightarrow> string \<Rightarrow> (string \<times> error option) \<times> ShardRouterFilter" where
  "lookupInS3 f tenantID =
    (case s3Client f of
       None \<Rightarrow> (([], Some (Errorf ''s3 client not initialized'')), f)
     | Some client \<Rightarrow>
         (let f = issue (S3GetObject (S3Bucket (config f)) (S3Key (config f))) f
          in case client (S3Bucket (config f)) (S3Key (config f)) of
               GetObjectFails e \<Rightarrow>
                 (([], Some (S3Error e)),
                  LogWarnf (''Failed to fetch mapping from S3: '' @ e) f)
             | ReadAllFails e \<Rightarrow>
                 (([], Some (ReadError e)),
                  LogWarnf (''Failed to read S3 object body: '' @ e) f)
             | UnmarshalFails e \<Rightarrow>
                 (([], Some (UnmarshalError e)),
                  LogWarnf (''Failed to parse mapping data from S3: '' @ e) f)
             | Unmarshalled mappingData \<Rightarrow>
                 (case searchMappings (Mappings mappingData) tenantID of
                    Some shardID \<Rightarrow>
                      ((shardID, None),
                       LogDebugf (''S3 lookup hit for tenant: '' @ tenantID @ '' -> shard: ''
                                  @ shardID) f)
                  | None \<Rightarrow>
                      (([], None),
                       LogDebugf (''S3 lookup miss for tenant: '' @ tenantID) f))))"

definition cacheInMemory :: "ShardRouterFilter \<Rightarrow> string \<Rightarrow> string \<Rightarrow> ShardRouterFilter" where
  "cacheInMemory f tenantID shardID =
    (case memoryCache f of
       Some cache \<Rightarrow>
         LogDebugf (''Cached in memory: tenant '' @ tenantID @ '' -> shard '' @ shardID)
           (issue (MemoryAdd tenantID shardID)
              (f\<lparr>memoryCache := Some (lru_Add cache tenantID shardID)\<rparr>))
     | None \<Rightarrow> f)"

text \<open>\<^verbatim>\<open>orchestratedLookup\<close> from the comment \<^verbatim>\<open>Tier 3\<close> on (lines 171 to 188).\<close>

definition orchestratedLookup_tier3 ::
  "ShardRouterFilter \<Rightarrow> string \<Rightarrow> (string \<times> error option) \<times> ShardRouterFilter" where
  "orchestratedLookup_tier3 f tenantID =
    (case lookupInS3 f tenantID of
       ((shardID, Some err), f) \<Rightarrow>
         (([], Some err),
          LogWarnf (''S3 lookup failed for tenant '' @ tenantID @ '': '' @ Error err) f)
     | ((shardID, None), f) \<Rightarrow>
         if shardID \<noteq> []
         then (case cacheInRedis f tenantID shardID of
                 (Some err, f) \<Rightarrow>
                   ((shardID, None),
                    cacheInMemory (LogWarnf (''Failed to cache in Redis: '' @ Error err) f)
                      tenantID shardID)
               | (None, f) \<Rightarrow> ((shardID, None), cacheInMemory f tenantID shardID))
         else (([], Some (Errorf (''no shard mapping found for tenant: '' @ tenantID))), f))"

text \<open>\<^verbatim>\<open>orchestratedLookup\<close>: tiers 1 and 2 (lines 156 to 169), then tier 3.\<close>

definition orchestratedLookup ::
  "ShardRouterFilter \<Rightarrow> string \<Rightarrow> (string \<times> error option) \<times> ShardRouterFilter" where
  "orchestratedLookup f tenantID =
    (case lookupInMemoryCache f tenantID of
       ((shardID, True), f) \<Rightarrow> ((shardID, None), f)
     | ((shardID, False), f) \<Rightarrow>
         (case lookupInRedisCache f tenantID of
            ((shardID, Some err), f) \<Rightarrow>
              orchestratedLookup_tier3
                (LogWarnf (''Redis lookup failed for tenant '' @ tenantID @ '': '' @ Error err) f)
                tenantID
          | ((shardID, None), f) \<Rightarrow>
              if shardID \<noteq> []
              then ((shardID, None), cacheInMemory f tenantID shardID)
              else orchestratedLookup_tier3 f tenantID))"

section \<open>Observations on a filter\<close>

text \<open>
  What each tier holds for a tenant, read off the state without changing it. These
  functions are not in the program; the properties below are stated with them.
  \<open>localEntry\<close> is the entry of the in-process cache. \<open>sharedReply\<close> is the reply a
  \<^verbatim>\<open>GET\<close> for the tenant's key would receive (\<open>None\<close> without a client) and \<open>sharedHit\<close>
  its value when that is a non-empty string. \<open>sharedData\<close> is the content of the shared
  cache. \<open>fetched\<close> is the outcome of fetching the configured object from the store.
\<close>

definition localEntry :: "ShardRouterFilter \<Rightarrow> string \<Rightarrow> string option" where
  "localEntry f tenantID =
     (case memoryCache f of None \<Rightarrow> None | Some cache \<Rightarrow> lru_Peek cache tenantID)"

definition sharedReply :: "ShardRouterFilter \<Rightarrow> string \<Rightarrow> redis_reply option" where
  "sharedReply f tenantID =
     (case redisClient f of
        None \<Rightarrow> None
      | Some client \<Rightarrow> Some (redis_Get client (RedisKeyPrefix (config f) @ tenantID)))"

definition sharedHit :: "ShardRouterFilter \<Rightarrow> string \<Rightarrow> string option" where
  "sharedHit f tenantID =
     (case sharedReply f tenantID of
        Some (RedisValue v) \<Rightarrow> if v \<noteq> [] then Some v else None
      | _ \<Rightarrow> None)"

definition sharedData :: "ShardRouterFilter \<Rightarrow> string \<rightharpoonup> string" where
  "sharedData f = (case redisClient f of None \<Rightarrow> Map.empty | Some client \<Rightarrow> redis_data client)"

definition fetched :: "ShardRouterFilter \<Rightarrow> s3_outcome option" where
  "fetched f =
     (case s3Client f of
        None \<Rightarrow> None
      | Some client \<Rightarrow> Some (client (S3Bucket (config f)) (S3Key (config f))))"

text \<open>No entry of the in-process cache has an empty shard identifier.\<close>

definition localNonEmpty :: "ShardRouterFilter \<Rightarrow> bool" where
  "localNonEmpty f =
     (case memoryCache f of
        None \<Rightarrow> True
      | Some cache \<Rightarrow> list_all (\<lambda>e. snd e \<noteq> []) (evictList cache))"

section \<open>Example states\<close>

text \<open>
  The configuration \<^verbatim>\<open>Parse\<close> builds from its defaults for a bucket
  \<^verbatim>\<open>tenant-mappings\<close>, and the mapping table of the specification's end-to-end example.
\<close>

definition exampleConfig :: PluginConfig where
  "exampleConfig =
     \<lparr>S3Bucket = ''tenant-mappings'', S3Key = ''mappings.json'', S3Region = ''us-east-1'',
      S3Endpoint = [], RedisAddr = ''redis:6379'', RedisPassword = [], RedisDB = 0,
      RedisKeyPrefix = ''shard_router:'', MemoryCacheSize = 1000, RedisTTL = 300000000000,
      TenantExtractionMode = ''subdomain'', TenantHeaderName = ''X-Tenant-ID'',
      RedisTimeout = 2000000000, S3Timeout = 5000000000\<rparr>"

definition exampleTable :: MappingData where
  "exampleTable =
     \<lparr>Mappings = [\<lparr>TenantID = ''tenant1'', ShardID = ''shard-a''\<rparr>,
                  \<lparr>TenantID = ''acme'', ShardID = ''shard-c''\<rparr>]\<rparr>"

definition exampleStore :: s3_client where
  "exampleStore bucket key =
     (if bucket = ''tenant-mappings'' \<and> key = ''mappings.json'' then Unmarshalled exampleTable
      else GetObjectFails ''NoSuchKey'')"

definition coldRedis :: redis_client where
  "coldRedis = \<lparr>redis_data = Map.empty, redis_get_fault = None, redis_set_fault = None\<rparr>"

definition downRedis :: redis_client where
  "downRedis = \<lparr>redis_data = Map.empty, redis_get_fault = Some ''i/o timeout'',
                 redis_set_fault = Some ''i/o timeout''\<rparr>"

definition readOnlyRedis :: redis_client where
  "readOnlyRedis = \<lparr>redis_data = Map.empty, redis_get_fault = None,
                     redis_set_fault = Some ''READONLY''\<rparr>"

definition warmRedis :: redis_client where
  "warmRedis = \<lparr>redis_data = [''shard_router:acme'' \<mapsto> ''shard-c''], redis_get_fault = None,
                 redis_set_fault = None\<rparr>"

definition exampleFilter :: ShardRouterFilter where
  "exampleFilter =
     \<lparr>config = exampleConfig, memoryCache = Some \<lparr>lru_size = 1000, evictList = []\<rparr>,
      redisClient = Some coldRedis, s3Client = Some exampleStore, currentShardID = [],
      calls = [], logs = []\<rparr>"

text \<open>A full cache of capacity three; \<open>c\<close> was used last, \<open>a\<close> longest ago.\<close>

definition exampleCache :: lru_cache where
  "exampleCache =
     \<lparr>lru_size = 3,
      evictList = [(''c'', ''shard-c''), (''b'', ''shard-b''), (''a'', ''shard-a'')]\<rparr>"

text \<open>A table that names the tenant twice.\<close>

definition duplicateTable :: MappingData where
  "duplicateTable =
     \<lparr>Mappings = [\<lparr>TenantID = ''acme'', ShardID = ''shard-c''\<rparr>,
                  \<lparr>TenantID = ''tenant1'', ShardID = ''shard-a''\<rparr>,
                  \<lparr>TenantID = ''tenant1'', ShardID = ''shard-b''\<rparr>]\<rparr>"

definition duplicateFilter :: ShardRouterFilter where
  "duplicateFilter = exampleFilter\<lparr>s3Client := Some (\<lambda>bucket key. Unmarshalled duplicateTable)\<rparr>"

text \<open>The example filter with the full cache above.\<close>

definition fullCacheFilter :: ShardRouterFilter where
  "fullCacheFilter = exampleFilter\<lparr>memoryCache := Some exampleCache\<rparr>"

text \<open>A child configuration that sets only the bucket and leaves every other field at
  its zero value.\<close>

definition childConfig0 :: PluginConfig where
  "childConfig0 =
     \<lparr>S3Bucket = ''other-bucket'', S3Key = [], S3Region = [], S3Endpoint = [],
      RedisAddr = [], RedisPassword = [], RedisDB = 0, RedisKeyPrefix = [],
      MemoryCacheSize = 0, RedisTTL = 0, TenantExtractionMode = [], TenantHeaderName = [],
      RedisTimeout = 0, S3Timeout = 0\<rparr>"

text \<open>The example filter in front of other shared caches and stores: a shared cache that
  is unreachable, one that rejects writes, one that already holds the mapping of
  \<^verbatim>\<open>acme\<close>; a store whose request fails, whose body cannot be read, whose document does
  not parse; and a table whose entry for \<^verbatim>\<open>ghost\<close> has an empty shard.\<close>

definition downRedisFilter :: ShardRouterFilter where
  "downRedisFilter = exampleFilter\<lparr>redisClient := Some downRedis\<rparr>"

definition readOnlyRedisFilter :: ShardRouterFilter where
  "readOnlyRedisFilter = exampleFilter\<lparr>redisClient := Some readOnlyRedis\<rparr>"

definition warmRedisFilter :: ShardRouterFilter where
  "warmRedisFilter = exampleFilter\<lparr>redisClient := Some warmRedis\<rparr>"

definition unreachableStoreFilter :: ShardRouterFilter where
  "unreachableStoreFilter
     = exampleFilter\<lparr>s3Client := Some (\<lambda>bucket key. GetObjectFails ''RequestError'')\<rparr>"

definition truncatedStoreFilter :: ShardRouterFilter where
  "truncatedStoreFilter
     = exampleFilter\<lparr>s3Client := Some (\<lambda>bucket key. ReadAllFails ''unexpected EOF'')\<rparr>"

definition garbledStoreFilter :: ShardRouterFilter where
  "garbledStoreFilter
     = exampleFilter\<lparr>s3Client := Some (\<lambda>bucket key. UnmarshalFails ''invalid character'')\<rparr>"

definition emptyShardTable :: MappingData where
  "emptyShardTable =
     \<lparr>Mappings = [\<lparr>TenantID = ''tenant1'', ShardID = ''shard-a''\<rparr>,
                  \<lparr>TenantID = ''ghost'', ShardID = []\<rparr>]\<rparr>"

definition emptyShardFilter :: ShardRouterFilter where
  "emptyShardFilter = exampleFilter\<lparr>s3Client := Some (\<lambda>bucket key. Unmarshalled emptyShardTable)\<rparr>"

definition emptyValueRedis :: redis_client where
  "emptyValueRedis = \<lparr>redis_data = [''shard_router:tenant1'' \<mapsto> []], redis_get_fault = None,
                       redis_set_fault = None\<rparr>"

definition emptyValueRedisFilter :: ShardRouterFilter where
  "emptyValueRedisFilter = exampleFilter\<lparr>redisClient := Some emptyValueRedis\<rparr>"

section \<open>Configuration merge: closed form\<close>

lemma update_if_field:
  "\<And>b v r. (if b then r\<lparr>S3Bucket := v\<rparr> else r) = r\<lparr>S3Bucket := if b then v else S3Bucket r\<rparr>"
  "\<And>b v r. (if b then r\<lparr>S3Key := v\<rparr> else r) = r\<lparr>S3Key := if b then v else S3Key r\<rparr>"
  "\<And>b v r. (if b then r\<lparr>S3Region := v\<rparr> else r) = r\<lparr>S3Region := if b then v else S3Region r\<rparr>"
  "\<And>b v r. (if b then r\<lparr>S3Endpoint := v\<rparr> else r)
     = r\<lparr>S3Endpoint := if b then v else S3Endpoint r\<rparr>"
  "\<And>b v r. (if b then r\<lparr>RedisAddr := v\<rparr> else r) = r\<lparr>RedisAddr := if b then v else RedisAddr r\<rparr>"
  "\<And>b v r. (if b then r\<lparr>RedisPassword := v\<rparr> else r)
     = r\<lparr>RedisPassword := if b then v else RedisPassword r\<rparr>"
  "\<And>b v r. (if b then r\<lparr>RedisDB := v\<rparr> else r) = r\<lparr>RedisDB := if b then v else RedisDB r\<rparr>"
  "\<And>b v r. (if b then r\<lparr>RedisKeyPrefix := v\<rparr> else r)
     = r\<lparr>RedisKeyPrefix := if b then v else RedisKeyPrefix r\<rparr>"
  "\<And>b v r. (if b then r\<lparr>MemoryCacheSize := v\<rparr> else r)
     = r\<lparr>MemoryCacheSize := if b then v else MemoryCacheSize r\<rparr>"
  "\<And>b v r. (if b then r\<lparr>RedisTTL := v\<rparr> else r) = r\<lparr>RedisTTL := if b then v else RedisTTL r\<rparr>"
  "\<And>b v r. (if b then r\<lparr>TenantExtractionMode := v\<rparr> else r)
     = r\<lparr>TenantExtractionMode := if b then v else TenantExtractionMode r\<rparr>"
  "\<And>b v r. (if b then r\<lparr>TenantHeaderName := v\<rparr> else r)
     = r\<lparr>TenantHeaderName := if b then v else TenantHeaderName r\<rparr>"
  "\<And>b v r. (if b then r\<lparr>RedisTimeout := v\<rparr> else r)
     = r\<lparr>RedisTimeout := if b then v else RedisTimeout r\<rparr>"
  "\<And>b v r. (if b then r\<lparr>S3Timeout := v\<rparr> else r) = r\<lparr>S3Timeout := if b then v else S3Timeout r\<rparr>"
  by simp_all

lemma mergeConfig_closed:
  "mergeConfig p c = p\<lparr>
     S3Bucket := if S3Bucket c = [] then S3Bucket p else S3Bucket c,
     S3Key := if S3Key c = [] then S3Key p else S3Key c,
     S3Region := if S3Region c = [] then S3Region p else S3Region c,
     S3Endpoint := if S3Endpoint c = [] then S3Endpoint p else S3Endpoint c,
     RedisAddr := if RedisAddr c = [] then RedisAddr p else RedisAddr c,
     RedisPassword := if RedisPassword c = [] then RedisPassword p else RedisPassword c,
     RedisDB := if RedisDB c = 0 then RedisDB p else RedisDB c,
     RedisKeyPrefix := if RedisKeyPrefix c = [] then RedisKeyPrefix p else RedisKeyPrefix c,
     MemoryCacheSize := if MemoryCacheSize c = 0 then MemoryCacheSize p else MemoryCacheSize c,
     RedisTTL := if RedisTTL c = 0 then RedisTTL p else RedisTTL c,
     TenantExtractionMode :=
       if TenantExtractionMode c = [] then TenantExtractionMode p else TenantExtractionMode c,
     TenantHeaderName := if TenantHeaderName c = [] then TenantHeaderName p else TenantHeaderName c,
     RedisTimeout := if RedisTimeout c = 0 then RedisTimeout p else RedisTimeout c,
     S3Timeout := if S3Timeout c = 0 then S3Timeout p else S3Timeout c\<rparr>"
  unfolding mergeConfig_def
  apply (simp only: update_if_field)
  apply (simp add: Let_def cong: if_cong)
  done

section \<open>The in-process cache\<close>

lemma lru_Get_miss: "lru_Peek c k = None \<Longrightarrow> snd (lru_Get c k) = c"
  by (simp add: lru_Get_def lru_Peek_def)

lemma lru_Get_hit:
  "lru_Peek c k = Some v
   \<Longrightarrow> lru_Get c k = (Some v, c\<lparr>evictList := moveToFront k v (evictList c)\<rparr>)"
  by (simp add: lru_Get_def lru_Peek_def)

lemma lru_Peek_Get: "lru_Peek c k = Some v \<Longrightarrow> lru_Peek (snd (lru_Get c k)) k = Some v"
  by (simp add: lru_Get_def lru_Peek_def moveToFront_def)

lemma lru_Peek_Add: "0 < lru_size c \<Longrightarrow> lru_Peek (lru_Add c k v) k = Some v"
  by (cases "evictList c")
     (auto simp: lru_Add_def lru_Peek_def moveToFront_def Let_def split: option.splits)

lemma lru_size_keep [simp]:
  "lru_size (lru_Add c k v) = lru_size c" "lru_size (snd (lru_Get c k)) = lru_size c"
  by (simp_all add: lru_Add_def lru_Get_def Let_def split: option.splits)

lemma map_of_None_filter: "map_of l k = None \<Longrightarrow> filter (\<lambda>e. fst e \<noteq> k) l = l"
  by (induction l) (auto split: if_splits)

lemma length_filter_key:
  "distinct (map fst l) \<Longrightarrow> map_of l k = Some v
   \<Longrightarrow> Suc (length (filter (\<lambda>e. fst e \<noteq> k) l)) = length l"
proof (induction l)
  case Nil
  then show ?case by simp
next
  case (Cons e l)
  show ?case
  proof (cases "fst e = k")
    case True
    with Cons.prems have "map_of l k = None"
      by (cases e) (auto simp: map_of_eq_None_iff)
    with True show ?thesis by (simp add: map_of_None_filter)
  next
    case False
    with Cons show ?thesis by (cases e) auto
  qed
qed

lemma distinct_moveToFront:
  "distinct (map fst l) \<Longrightarrow> distinct (map fst (moveToFront k v l))"
  by (auto simp: moveToFront_def distinct_map_filter)

lemma distinct_butlast_keys: "distinct (map fst l) \<Longrightarrow> distinct (map fst (butlast l))"
  by (simp add: map_butlast distinct_butlast)

lemma lru_wf_Get: "lru_wf c \<Longrightarrow> lru_wf (snd (lru_Get c k))"
proof (cases "lru_Peek c k")
  case None
  assume "lru_wf c"
  with None show ?thesis by (simp add: lru_Get_miss)
next
  case (Some v)
  assume wf: "lru_wf c"
  then have "Suc (length (filter (\<lambda>e. fst e \<noteq> k) (evictList c))) = length (evictList c)"
    using Some by (intro length_filter_key) (simp_all add: lru_wf_def lru_Peek_def)
  with wf Some show ?thesis
    using distinct_moveToFront[of "evictList c" k v]
    by (simp add: lru_Get_hit lru_wf_def) (simp add: moveToFront_def)
qed

lemma lru_wf_Add: "lru_wf c \<Longrightarrow> lru_wf (lru_Add c k v)"
proof (cases "map_of (evictList c) k")
  case None
  assume wf: "lru_wf c"
  have d: "distinct (map fst ((k, v) # evictList c))"
    using wf None by (auto simp: lru_wf_def map_of_eq_None_iff)
  show ?thesis
    using wf None d distinct_butlast_keys[OF d]
    by (auto simp: lru_Add_def lru_wf_def Let_def)
next
  case (Some old)
  assume wf: "lru_wf c"
  then have "Suc (length (filter (\<lambda>e. fst e \<noteq> k) (evictList c))) = length (evictList c)"
    using Some by (intro length_filter_key) (simp_all add: lru_wf_def)
  with wf Some show ?thesis
    using distinct_moveToFront[of "evictList c" k v]
    by (simp add: lru_Add_def lru_wf_def) (simp add: moveToFront_def)
qed

lemma nonempty_map_of:
  assumes "list_all (\<lambda>e. snd e \<noteq> []) l" and "map_of l k = Some v"
  shows "v \<noteq> []"
proof -
  from assms(2) have "(k, v) \<in> set l" by (rule map_of_SomeD)
  with assms(1) have "snd (k, v) \<noteq> []" unfolding list_all_iff by blast
  then show ?thesis by simp
qed

lemma nonempty_filter:
  "list_all (\<lambda>e. snd e \<noteq> []) l \<Longrightarrow> list_all (\<lambda>e. snd e \<noteq> []) (filter Q l)"
  by (induction l) simp_all

lemma nonempty_butlast:
  "list_all (\<lambda>e. snd e \<noteq> []) l \<Longrightarrow> list_all (\<lambda>e. snd e \<noteq> []) (butlast l)"
  by (induction l) simp_all

lemma nonempty_Get:
  assumes "list_all (\<lambda>e. snd e \<noteq> []) (evictList c)"
  shows "list_all (\<lambda>e. snd e \<noteq> []) (evictList (snd (lru_Get c k)))"
proof (cases "map_of (evictList c) k")
  case None
  with assms show ?thesis by (simp add: lru_Get_def)
next
  case (Some v)
  with assms have "v \<noteq> []" by (rule nonempty_map_of)
  with assms Some show ?thesis
    by (simp add: lru_Get_def moveToFront_def nonempty_filter)
qed

lemma nonempty_Add:
  assumes "list_all (\<lambda>e. snd e \<noteq> []) (evictList c)" and "v \<noteq> []"
  shows "list_all (\<lambda>e. snd e \<noteq> []) (evictList (lru_Add c k v))"
proof (cases "map_of (evictList c) k")
  case None
  have "list_all (\<lambda>e. snd e \<noteq> []) ((k, v) # evictList c)"
    using assms by simp
  then have "list_all (\<lambda>e. snd e \<noteq> []) (butlast ((k, v) # evictList c))"
    by (rule nonempty_butlast)
  with None assms show ?thesis
    by (simp add: lru_Add_def Let_def del: butlast.simps)
next
  case (Some old)
  with assms show ?thesis
    by (simp add: lru_Add_def moveToFront_def nonempty_filter)
qed

lemma nonempty_Peek:
  "list_all (\<lambda>e. snd e \<noteq> []) (evictList c) \<Longrightarrow> lru_Peek c k = Some v \<Longrightarrow> v \<noteq> []"
  unfolding lru_Peek_def by (rule nonempty_map_of)

section \<open>The search loop\<close>

lemma searchMappings_first:
  "t \<notin> TenantID ` set pre \<Longrightarrow> TenantID m = t
   \<Longrightarrow> searchMappings (pre @ m # post) t = Some (ShardID m)"
  by (induction pre) auto

lemma searchMappings_absent:
  "t \<notin> TenantID ` set l \<Longrightarrow> searchMappings l t = None"
  by (induction l) auto

section \<open>Each step of the lookup, field by field\<close>

lemma Log_fields [simp]:
  "config (LogDebugf m f) = config f" "config (LogWarnf m f) = config f"
  "memoryCache (LogDebugf m f) = memoryCache f" "memoryCache (LogWarnf m f) = memoryCache f"
  "redisClient (LogDebugf m f) = redisClient f" "redisClient (LogWarnf m f) = redisClient f"
  "s3Client (LogDebugf m f) = s3Client f" "s3Client (LogWarnf m f) = s3Client f"
  "calls (LogDebugf m f) = calls f" "calls (LogWarnf m f) = calls f"
  "logs (LogDebugf m f) = logs f @ [Debugf m]" "logs (LogWarnf m f) = logs f @ [Warnf m]"
  by (simp_all add: LogDebugf_def LogWarnf_def)

lemma issue_fields [simp]:
  "config (issue c f) = config f" "memoryCache (issue c f) = memoryCache f"
  "redisClient (issue c f) = redisClient f" "s3Client (issue c f) = s3Client f"
  "calls (issue c f) = calls f @ [c]" "logs (issue c f) = logs f"
  by (simp_all add: issue_def)

lemma lookupInMemoryCache_fst:
  "fst (lookupInMemoryCache f t)
     = (case localEntry f t of Some s \<Rightarrow> (s, True) | None \<Rightarrow> ([], False))"
  by (simp add: lookupInMemoryCache_def localEntry_def lru_Get_def lru_Peek_def
        split: option.splits)

lemma lookupInMemoryCache_snd:
  "memoryCache (snd (lookupInMemoryCache f t))
     = (case memoryCache f of None \<Rightarrow> None | Some c \<Rightarrow> Some (snd (lru_Get c t)))"
  "redisClient (snd (lookupInMemoryCache f t)) = redisClient f"
  "s3Client (snd (lookupInMemoryCache f t)) = s3Client f"
  "config (snd (lookupInMemoryCache f t)) = config f"
  "calls (snd (lookupInMemoryCache f t))
     = calls f @ (case memoryCache f of None \<Rightarrow> [] | Some c \<Rightarrow> [MemoryGet t])"
  by (simp_all add: lookupInMemoryCache_def split: option.splits prod.splits)

lemma lookupInRedisCache_fst:
  "fst (lookupInRedisCache f t)
     = (case sharedReply f t of
          None \<Rightarrow> ([], Some (Errorf ''redis client not initialized''))
        | Some RedisNil \<Rightarrow> ([], None)
        | Some (RedisFailed e) \<Rightarrow> ([], Some (RedisError e))
        | Some (RedisValue v) \<Rightarrow> (v, None))"
  by (simp add: lookupInRedisCache_def sharedReply_def Let_def
        split: option.splits redis_reply.splits)

lemma lookupInRedisCache_snd:
  "memoryCache (snd (lookupInRedisCache f t)) = memoryCache f"
  "redisClient (snd (lookupInRedisCache f t)) = redisClient f"
  "s3Client (snd (lookupInRedisCache f t)) = s3Client f"
  "config (snd (lookupInRedisCache f t)) = config f"
  "calls (snd (lookupInRedisCache f t))
     = calls f @ (case redisClient f of None \<Rightarrow> []
                  | Some c \<Rightarrow> [RedisGET (RedisKeyPrefix (config f) @ t)])"
  by (simp_all add: lookupInRedisCache_def Let_def split: option.splits redis_reply.splits)

lemma lookupInS3_fst:
  "fst (lookupInS3 f t)
     = (case fetched f of
          None \<Rightarrow> ([], Some (Errorf ''s3 client not initialized''))
        | Some (GetObjectFails e) \<Rightarrow> ([], Some (S3Error e))
        | Some (ReadAllFails e) \<Rightarrow> ([], Some (ReadError e))
        | Some (UnmarshalFails e) \<Rightarrow> ([], Some (UnmarshalError e))
        | Some (Unmarshalled md) \<Rightarrow>
            (case searchMappings (Mappings md) t of
               Some s \<Rightarrow> (s, None) | None \<Rightarrow> ([], None)))"
  by (simp add: lookupInS3_def fetched_def Let_def split: option.splits s3_outcome.splits)

lemma lookupInS3_snd:
  "memoryCache (snd (lookupInS3 f t)) = memoryCache f"
  "redisClient (snd (lookupInS3 f t)) = redisClient f"
  "s3Client (snd (lookupInS3 f t)) = s3Client f"
  "config (snd (lookupInS3 f t)) = config f"
  "calls (snd (lookupInS3 f t))
     = calls f @ (case s3Client f of None \<Rightarrow> []
                  | Some c \<Rightarrow> [S3GetObject (S3Bucket (config f)) (S3Key (config f))])"
  by (simp_all add: lookupInS3_def Let_def split: option.splits s3_outcome.splits)

lemma cacheInRedis_fst:
  "fst (cacheInRedis f t s)
     = (case redisClient f of
          None \<Rightarrow> Some (Errorf ''redis client not initialized'')
        | Some cl \<Rightarrow> (case redis_set_fault cl of Some e \<Rightarrow> Some (RedisError e) | None \<Rightarrow> None))"
  by (simp add: cacheInRedis_def redis_Set_def Let_def split: option.splits)

lemma cacheInRedis_snd:
  "memoryCache (snd (cacheInRedis f t s)) = memoryCache f"
  "redisClient (snd (cacheInRedis f t s))
     = (case redisClient f of None \<Rightarrow> None
        | Some cl \<Rightarrow>
            Some (snd (redis_Set cl (RedisKeyPrefix (config f) @ t) s (RedisTTL (config f)))))"
  "s3Client (snd (cacheInRedis f t s)) = s3Client f"
  "config (snd (cacheInRedis f t s)) = config f"
  "calls (snd (cacheInRedis f t s))
     = calls f @ (case redisClient f of None \<Rightarrow> []
                  | Some c \<Rightarrow> [RedisSET (RedisKeyPrefix (config f) @ t) s (RedisTTL (config f))])"
  by (simp_all add: cacheInRedis_def redis_Set_def Let_def split: option.splits)

lemma cacheInMemory_fields:
  "memoryCache (cacheInMemory f t s)
     = (case memoryCache f of None \<Rightarrow> None | Some c \<Rightarrow> Some (lru_Add c t s))"
  "redisClient (cacheInMemory f t s) = redisClient f"
  "s3Client (cacheInMemory f t s) = s3Client f"
  "config (cacheInMemory f t s) = config f"
  "calls (cacheInMemory f t s)
     = calls f @ (case memoryCache f of None \<Rightarrow> [] | Some c \<Rightarrow> [MemoryAdd t s])"
  by (simp_all add: cacheInMemory_def split: option.splits)

section \<open>The lookup as a whole\<close>

lemma tier3_alt:
  "orchestratedLookup_tier3 f t =
    (let r = lookupInS3 f t; shardID = fst (fst r)
     in case snd (fst r) of
          Some err \<Rightarrow>
            (([], Some err),
             LogWarnf (''S3 lookup failed for tenant '' @ t @ '': '' @ Error err) (snd r))
        | None \<Rightarrow>
            if shardID \<noteq> []
            then (let c = cacheInRedis (snd r) t shardID
                  in case fst c of
                       Some err \<Rightarrow>
                         ((shardID, None),
                          cacheInMemory (LogWarnf (''Failed to cache in Redis: '' @ Error err) (snd c))
                            t shardID)
                     | None \<Rightarrow> ((shardID, None), cacheInMemory (snd c) t shardID))
            else (([], Some (Errorf (''no shard mapping found for tenant: '' @ t))), snd r))"
  by (simp add: orchestratedLookup_tier3_def split: prod.splits option.splits)

lemma tier3_fst:
  "fst (orchestratedLookup_tier3 f t)
     = (case fetched f of
          None \<Rightarrow> ([], Some (Errorf ''s3 client not initialized''))
        | Some (GetObjectFails e) \<Rightarrow> ([], Some (S3Error e))
        | Some (ReadAllFails e) \<Rightarrow> ([], Some (ReadError e))
        | Some (UnmarshalFails e) \<Rightarrow> ([], Some (UnmarshalError e))
        | Some (Unmarshalled md) \<Rightarrow>
            (case searchMappings (Mappings md) t of
               Some s \<Rightarrow>
                 if s \<noteq> [] then (s, None)
                 else ([], Some (Errorf (''no shard mapping found for tenant: '' @ t)))
             | None \<Rightarrow> ([], Some (Errorf (''no shard mapping found for tenant: '' @ t)))))"
  by (simp add: tier3_alt Let_def lookupInS3_fst split: option.splits s3_outcome.splits)


lemma tier3_snd:
  "memoryCache (snd (orchestratedLookup_tier3 f t))
     = (case fst (orchestratedLookup_tier3 f t) of
          (s, None) \<Rightarrow>
            (case memoryCache f of None \<Rightarrow> None | Some c \<Rightarrow> Some (lru_Add c t s))
        | (s, Some e) \<Rightarrow> memoryCache f)"
  "redisClient (snd (orchestratedLookup_tier3 f t))
     = (case fst (orchestratedLookup_tier3 f t) of
          (s, None) \<Rightarrow>
            (case redisClient f of None \<Rightarrow> None
             | Some cl \<Rightarrow>
                 Some (snd (redis_Set cl (RedisKeyPrefix (config f) @ t) s (RedisTTL (config f)))))
        | (s, Some e) \<Rightarrow> redisClient f)"
  "s3Client (snd (orchestratedLookup_tier3 f t)) = s3Client f"
  "config (snd (orchestratedLookup_tier3 f t)) = config f"
  "calls (snd (orchestratedLookup_tier3 f t))
     = calls f
       @ (case s3Client f of None \<Rightarrow> []
          | Some c \<Rightarrow> [S3GetObject (S3Bucket (config f)) (S3Key (config f))])
       @ (case fst (orchestratedLookup_tier3 f t) of
            (s, None) \<Rightarrow>
              (case redisClient f of None \<Rightarrow> []
               | Some c \<Rightarrow> [RedisSET (RedisKeyPrefix (config f) @ t) s (RedisTTL (config f))])
              @ (case memoryCache f of None \<Rightarrow> [] | Some c \<Rightarrow> [MemoryAdd t s])
          | (s, Some e) \<Rightarrow> [])"
  by (simp_all add: tier3_alt Let_def lookupInS3_snd cacheInRedis_snd cacheInMemory_fields
        split: option.splits)

lemma orchestratedLookup_alt:
  "orchestratedLookup f t =
    (let m = lookupInMemoryCache f t
     in if snd (fst m) then ((fst (fst m), None), snd m)
        else (let r = lookupInRedisCache (snd m) t; shardID = fst (fst r)
              in case snd (fst r) of
                   Some err \<Rightarrow>
                     orchestratedLookup_tier3
                       (LogWarnf (''Redis lookup failed for tenant '' @ t @ '': '' @ Error err) (snd r))
                       t
                 | None \<Rightarrow>
                     if shardID \<noteq> [] then ((shardID, None), cacheInMemory (snd r) t shardID)
                     else orchestratedLookup_tier3 (snd r) t))"
  by (simp add: orchestratedLookup_def split: prod.splits option.splits bool.splits)

lemma fetched_simps [simp]:
  "fetched (LogWarnf w f) = fetched f"
  "fetched (snd (lookupInRedisCache f t)) = fetched f"
  "fetched (snd (lookupInMemoryCache f t)) = fetched f"
  by (simp_all add: fetched_def lookupInRedisCache_snd lookupInMemoryCache_snd
        cong: option.case_cong)

lemma sharedReply_simps [simp]:
  "sharedReply (snd (lookupInMemoryCache f t)) t' = sharedReply f t'"
  by (simp_all add: sharedReply_def lookupInMemoryCache_snd cong: option.case_cong)

lemma tier3_fst_simps [simp]:
  "fst (orchestratedLookup_tier3 (LogWarnf w f) t) = fst (orchestratedLookup_tier3 f t)"
  "fst (orchestratedLookup_tier3 (snd (lookupInRedisCache f t')) t)
     = fst (orchestratedLookup_tier3 f t)"
  "fst (orchestratedLookup_tier3 (snd (lookupInMemoryCache f t')) t)
     = fst (orchestratedLookup_tier3 f t)"
  by (simp_all add: tier3_fst)

lemma orchestratedLookup_fst:
  "fst (orchestratedLookup f t)
     = (case localEntry f t of
          Some s \<Rightarrow> (s, None)
        | None \<Rightarrow>
            (case sharedHit f t of
               Some s \<Rightarrow> (s, None)
             | None \<Rightarrow> fst (orchestratedLookup_tier3 f t)))"
  by (simp add: orchestratedLookup_alt Let_def lookupInMemoryCache_fst lookupInRedisCache_fst
        sharedHit_def
        split: option.splits redis_reply.splits)

lemma orchestratedLookup_env:
  "s3Client (snd (orchestratedLookup f t)) = s3Client f"
  "config (snd (orchestratedLookup f t)) = config f"
  by (simp_all add: orchestratedLookup_alt Let_def lookupInMemoryCache_snd
        lookupInRedisCache_snd cacheInMemory_fields tier3_snd split: option.splits)

lemma orchestratedLookup_memoryCache:
  "memoryCache (snd (orchestratedLookup f t))
     = (case memoryCache f of
          None \<Rightarrow> None
        | Some c \<Rightarrow>
            Some (case lru_Peek c t of
                    Some s \<Rightarrow> snd (lru_Get c t)
                  | None \<Rightarrow>
                      (case fst (orchestratedLookup f t) of
                         (s, None) \<Rightarrow> lru_Add c t s
                       | (s, Some e) \<Rightarrow> c)))"
  unfolding orchestratedLookup_fst
  by (simp add: orchestratedLookup_alt Let_def lookupInMemoryCache_fst lookupInMemoryCache_snd
        lookupInRedisCache_fst lookupInRedisCache_snd cacheInMemory_fields tier3_snd
        localEntry_def sharedHit_def lru_Get_miss
        split: option.splits redis_reply.splits prod.splits)


lemma orchestratedLookup_redisClient:
  "redisClient (snd (orchestratedLookup f t))
     = (case redisClient f of
          None \<Rightarrow> None
        | Some cl \<Rightarrow>
            Some (if localEntry f t = None \<and> sharedHit f t = None
                  then (case fst (orchestratedLookup f t) of
                          (s, None) \<Rightarrow>
                            snd (redis_Set cl (RedisKeyPrefix (config f) @ t) s (RedisTTL (config f)))
                        | (s, Some e) \<Rightarrow> cl)
                  else cl))"
  unfolding orchestratedLookup_fst
  by (simp add: orchestratedLookup_alt Let_def lookupInMemoryCache_fst lookupInMemoryCache_snd
        lookupInRedisCache_fst lookupInRedisCache_snd cacheInMemory_fields tier3_snd
        sharedHit_def sharedReply_def
        split: option.splits redis_reply.splits prod.splits)

lemma orchestratedLookup_calls:
  "calls (snd (orchestratedLookup f t))
     = calls f
       @ (case memoryCache f of None \<Rightarrow> [] | Some c \<Rightarrow> [MemoryGet t])
       @ (case localEntry f t of
            Some s \<Rightarrow> []
          | None \<Rightarrow>
              (case redisClient f of None \<Rightarrow> []
               | Some c \<Rightarrow> [RedisGET (RedisKeyPrefix (config f) @ t)])
              @ (case sharedHit f t of
                   Some s \<Rightarrow> (case memoryCache f of None \<Rightarrow> [] | Some c \<Rightarrow> [MemoryAdd t s])
                 | None \<Rightarrow>
                     (case s3Client f of None \<Rightarrow> []
                      | Some c \<Rightarrow> [S3GetObject (S3Bucket (config f)) (S3Key (config f))])
                     @ (case fst (orchestratedLookup f t) of
                          (s, None) \<Rightarrow>
                            (case redisClient f of None \<Rightarrow> []
                             | Some c \<Rightarrow>
                                 [RedisSET (RedisKeyPrefix (config f) @ t) s (RedisTTL (config f))])
                            @ (case memoryCache f of None \<Rightarrow> [] | Some c \<Rightarrow> [MemoryAdd t s])
                        | (s, Some e) \<Rightarrow> [])))"
  unfolding orchestratedLookup_fst
  by (simp add: orchestratedLookup_alt Let_def lookupInMemoryCache_fst lookupInMemoryCache_snd
        lookupInRedisCache_fst lookupInRedisCache_snd cacheInMemory_fields tier3_snd
        sharedHit_def sharedReply_def
        split: option.splits redis_reply.splits prod.splits)

section \<open>Further facts on the merge and the cache\<close>

lemma mergeConfig_fields:
  "S3Bucket (mergeConfig p c) = (if S3Bucket c = [] then S3Bucket p else S3Bucket c)"
  "S3Key (mergeConfig p c) = (if S3Key c = [] then S3Key p else S3Key c)"
  "S3Region (mergeConfig p c) = (if S3Region c = [] then S3Region p else S3Region c)"
  "S3Endpoint (mergeConfig p c) = (if S3Endpoint c = [] then S3Endpoint p else S3Endpoint c)"
  "RedisAddr (mergeConfig p c) = (if RedisAddr c = [] then RedisAddr p else RedisAddr c)"
  "RedisPassword (mergeConfig p c)
     = (if RedisPassword c = [] then RedisPassword p else RedisPassword c)"
  "RedisDB (mergeConfig p c) = (if RedisDB c = 0 then RedisDB p else RedisDB c)"
  "RedisKeyPrefix (mergeConfig p c)
     = (if RedisKeyPrefix c = [] then RedisKeyPrefix p else RedisKeyPrefix c)"
  "MemoryCacheSize (mergeConfig p c)
     = (if MemoryCacheSize c = 0 then MemoryCacheSize p else MemoryCacheSize c)"
  "RedisTTL (mergeConfig p c) = (if RedisTTL c = 0 then RedisTTL p else RedisTTL c)"
  "TenantExtractionMode (mergeConfig p c)
     = (if TenantExtractionMode c = [] then TenantExtractionMode p else TenantExtractionMode c)"
  "TenantHeaderName (mergeConfig p c)
     = (if TenantHeaderName c = [] then TenantHeaderName p else TenantHeaderName c)"
  "RedisTimeout (mergeConfig p c)
     = (if RedisTimeout c = 0 then RedisTimeout p else RedisTimeout c)"
  "S3Timeout (mergeConfig p c) = (if S3Timeout c = 0 then S3Timeout p else S3Timeout c)"
  by (simp_all add: mergeConfig_closed)

lemma lru_Add_full_new:
  "0 < lru_size c \<Longrightarrow> length (evictList c) = lru_size c \<Longrightarrow> lru_Peek c k = None
   \<Longrightarrow> evictList (lru_Add c k v) = (k, v) # butlast (evictList c)"
  by (cases "evictList c") (simp_all add: lru_Add_def lru_Peek_def Let_def)

lemma filter_keys_absent:
  "k \<notin> fst ` set l \<Longrightarrow> filter (\<lambda>e. fst e \<noteq> k) l = l"
  by (induction l) auto

lemma map_of_last_key:
  "distinct (map fst (l @ [a])) \<Longrightarrow> map_of (l @ [a]) (fst a) = Some (snd a)"
  by (induction l) (auto simp: rev_image_eqI)

lemma filter_last_key:
  "distinct (map fst (l @ [a])) \<Longrightarrow> filter (\<lambda>e. fst e \<noteq> fst a) (l @ [a]) = l"
  by (induction l) (auto simp: filter_keys_absent)

lemma touch_then_add:
  assumes wf: "lru_wf c" and full: "length (evictList c) = lru_size c"
    and l: "evictList c = xs @ [b, a]" and new: "lru_Peek c k = None"
  shows "evictList (lru_Add (snd (lru_Get c (fst a))) k v) = (k, v) # a # xs"
proof -
  have d: "distinct (map fst ((xs @ [b]) @ [a]))"
    using wf l by (simp add: lru_wf_def)
  have hit: "lru_Peek c (fst a) = Some (snd a)"
    using map_of_last_key[OF d] l by (simp add: lru_Peek_def)
  have touched: "evictList (snd (lru_Get c (fst a))) = a # xs @ [b]"
    using filter_last_key[OF d] l by (simp add: lru_Get_hit[OF hit] moveToFront_def)
  have ka: "k \<noteq> fst a"
    using hit new by auto
  have new': "lru_Peek (snd (lru_Get c (fst a))) k = None"
    using new l ka touched by (auto simp: lru_Peek_def map_of_eq_None_iff)
  have full': "length (evictList (snd (lru_Get c (fst a)))) = lru_size (snd (lru_Get c (fst a)))"
    using full l touched by simp
  have pos: "0 < lru_size (snd (lru_Get c (fst a)))"
    using wf by (simp add: lru_wf_def)
  show ?thesis
    using lru_Add_full_new[OF pos full' new', of v] touched by (simp add: butlast_append)
qed


section \<open>Log lines and the path to the store\<close>

lemma cacheInMemory_logs:
  "logs (cacheInMemory f t s)
     = logs f @ (case memoryCache f of None \<Rightarrow> []
                 | Some c \<Rightarrow> [Debugf (''Cached in memory: tenant '' @ t @ '' -> shard '' @ s)])"
  by (simp add: cacheInMemory_def split: option.splits)

lemma lookupInS3_logs_mono: "set (logs f) \<subseteq> set (logs (snd (lookupInS3 f t)))"
  by (simp add: lookupInS3_def Let_def split: option.splits s3_outcome.splits) auto

lemma cacheInRedis_logs_mono: "set (logs f) \<subseteq> set (logs (snd (cacheInRedis f t s)))"
  by (simp add: cacheInRedis_def redis_Set_def Let_def split: option.splits) auto

lemma tier3_logs_mono: "set (logs f) \<subseteq> set (logs (snd (orchestratedLookup_tier3 f t)))"
  using lookupInS3_logs_mono[of f t]
    cacheInRedis_logs_mono[of "snd (lookupInS3 f t)" t "fst (fst (lookupInS3 f t))"]
  by (auto simp: tier3_alt Let_def cacheInMemory_logs split: option.splits)

lemma tier3_set_failure_logged:
  assumes "redisClient f = Some cl" and "redis_set_fault cl = Some e"
    and "snd (fst (orchestratedLookup_tier3 f t)) = None"
  shows "Warnf (''Failed to cache in Redis: '' @ e) \<in> set (logs (snd (orchestratedLookup_tier3 f t)))"
proof -
  let ?r = "lookupInS3 f t"
  have ok: "snd (fst ?r) = None" and ne: "fst (fst ?r) \<noteq> []"
    using assms(3) by (auto simp: tier3_alt Let_def split: option.splits if_splits)
  have c: "fst (cacheInRedis (snd ?r) t (fst (fst ?r))) = Some (RedisError e)"
    using assms(1,2) by (simp add: cacheInRedis_fst lookupInS3_snd)
  show ?thesis
    using ok ne c by (simp add: tier3_alt Let_def cacheInMemory_logs)
qed

lemma sharedHit_None_cases:
  "sharedHit f t = None \<Longrightarrow>
     sharedReply f t = None \<or> sharedReply f t = Some RedisNil
     \<or> (\<exists>e. sharedReply f t = Some (RedisFailed e)) \<or> sharedReply f t = Some (RedisValue [])"
  by (auto simp: sharedHit_def split: option.splits redis_reply.splits if_splits)

lemma sharedHit_nonempty: "sharedHit f t = Some s \<Longrightarrow> s \<noteq> []"
  by (auto simp: sharedHit_def split: option.splits redis_reply.splits if_splits)

lemma orchestratedLookup_to_tier3:
  assumes "localEntry f t = None" and "sharedHit f t = None"
  shows "\<exists>g. orchestratedLookup f t = orchestratedLookup_tier3 g t
     \<and> redisClient g = redisClient f \<and> s3Client g = s3Client f \<and> config g = config f
     \<and> (\<forall>e. sharedReply f t = Some (RedisFailed e)
          \<longrightarrow> Warnf (''Redis lookup failed for tenant '' @ t @ '': '' @ e) \<in> set (logs g))"
proof -
  let ?m = "lookupInMemoryCache f t"
  let ?r = "lookupInRedisCache (snd ?m) t"
  have m: "fst ?m = ([], False)"
    using assms(1) by (simp add: lookupInMemoryCache_fst)
  have env: "redisClient (snd ?r) = redisClient f" "s3Client (snd ?r) = s3Client f"
    "config (snd ?r) = config f"
    by (simp_all add: lookupInRedisCache_snd lookupInMemoryCache_snd)
  have r: "fst ?r = (case sharedReply f t of
          None \<Rightarrow> ([], Some (Errorf ''redis client not initialized''))
        | Some RedisNil \<Rightarrow> ([], None)
        | Some (RedisFailed e) \<Rightarrow> ([], Some (RedisError e))
        | Some (RedisValue v) \<Rightarrow> (v, None))"
    by (simp add: lookupInRedisCache_fst)
  from sharedHit_None_cases[OF assms(2)] show ?thesis
  proof (elim disjE exE)
    assume a: "sharedReply f t = None"
    let ?g = "LogWarnf (''Redis lookup failed for tenant '' @ t @ '': ''
                @ Error (Errorf ''redis client not initialized'')) (snd ?r)"
    have "orchestratedLookup f t = orchestratedLookup_tier3 ?g t"
      using m r a by (simp add: orchestratedLookup_alt Let_def)
    then show ?thesis using env a by (intro exI[of _ ?g]) simp
  next
    assume a: "sharedReply f t = Some RedisNil"
    have "orchestratedLookup f t = orchestratedLookup_tier3 (snd ?r) t"
      using m r a by (simp add: orchestratedLookup_alt Let_def)
    then show ?thesis using env a by (intro exI[of _ "snd ?r"]) simp
  next
    fix e assume a: "sharedReply f t = Some (RedisFailed e)"
    let ?g = "LogWarnf (''Redis lookup failed for tenant '' @ t @ '': ''
                @ Error (RedisError e)) (snd ?r)"
    have "orchestratedLookup f t = orchestratedLookup_tier3 ?g t"
      using m r a by (simp add: orchestratedLookup_alt Let_def)
    then show ?thesis using env a by (intro exI[of _ ?g]) simp
  next
    assume a: "sharedReply f t = Some (RedisValue [])"
    have "orchestratedLookup f t = orchestratedLookup_tier3 (snd ?r) t"
      using m r a by (simp add: orchestratedLookup_alt Let_def)
    then show ?thesis using env a by (intro exI[of _ "snd ?r"]) simp
  qed
qed

lemma tier3_found_nonempty:
  "snd (fst (orchestratedLookup_tier3 f t)) = None \<Longrightarrow> fst (fst (orchestratedLookup_tier3 f t)) \<noteq> []"
  by (auto simp: tier3_alt Let_def split: option.splits if_splits)

lemma tier3_error_has_empty_shard:
  "snd (fst (orchestratedLookup_tier3 f t)) = Some e \<Longrightarrow> fst (fst (orchestratedLookup_tier3 f t)) = []"
  by (auto simp: tier3_alt Let_def split: option.splits if_splits)

lemma tier3_found:
  assumes "fetched f = Some (Unmarshalled md)" and "Mappings md = pre @ m # post"
    and "t \<notin> TenantID ` set pre" and "TenantID m = t"
  shows "fst (orchestratedLookup_tier3 f t)
     = (if ShardID m \<noteq> [] then (ShardID m, None)
        else ([], Some (Errorf (''no shard mapping found for tenant: '' @ t))))"
  using assms by (simp add: tier3_fst searchMappings_first)

lemma tier3_absent:
  assumes "fetched f = Some (Unmarshalled md)" and "t \<notin> TenantID ` set (Mappings md)"
  shows "fst (orchestratedLookup_tier3 f t)
     = ([], Some (Errorf (''no shard mapping found for tenant: '' @ t)))"
  using assms by (simp add: tier3_fst searchMappings_absent)

lemma orchestratedLookup_miss:
  "localEntry f t = None \<Longrightarrow> sharedHit f t = None
   \<Longrightarrow> fst (orchestratedLookup f t) = fst (orchestratedLookup_tier3 f t)"
  by (simp add: orchestratedLookup_fst)

lemma orchestratedLookup_found_nonempty:
  assumes "localNonEmpty f" and "snd (fst (orchestratedLookup f t)) = None"
  shows "fst (fst (orchestratedLookup f t)) \<noteq> []"
proof (cases "localEntry f t")
  case (Some s)
  then have "s \<noteq> []"
    using assms(1) nonempty_Peek[of _ t s]
    by (auto simp: localNonEmpty_def localEntry_def split: option.splits)
  with Some show ?thesis by (simp add: orchestratedLookup_fst)
next
  case None
  show ?thesis
  proof (cases "sharedHit f t")
    case (Some s)
    with None sharedHit_nonempty[OF Some] show ?thesis by (simp add: orchestratedLookup_fst)
  next
    case n: None
    with None assms(2) tier3_found_nonempty[of f t] show ?thesis
      by (simp add: orchestratedLookup_fst)
  qed
qed

lemma orchestratedLookup_error_has_empty_shard:
  assumes "snd (fst (orchestratedLookup f t)) = Some e"
  shows "fst (fst (orchestratedLookup f t)) = []"
    and "localEntry f t = None" and "sharedHit f t = None"
  using assms tier3_error_has_empty_shard[of f t e]
  by (auto simp: orchestratedLookup_fst split: option.splits)

lemma orchestratedLookup_localEntry:
  assumes "memoryCache f = Some c" and "0 < lru_size c"
    and "fst (orchestratedLookup f t) = (s, None)"
  shows "localEntry (snd (orchestratedLookup f t)) t = Some s"
proof (cases "lru_Peek c t")
  case None
  with assms show ?thesis
    by (simp add: localEntry_def orchestratedLookup_memoryCache lru_Peek_Add)
next
  case (Some s')
  with assms have "s' = s"
    by (simp add: orchestratedLookup_fst localEntry_def)
  with Some assms show ?thesis
    by (simp add: localEntry_def orchestratedLookup_memoryCache lru_Peek_Get)
qed

section \<open>The example states, evaluated\<close>

lemma exampleFilter_cold:
  "localEntry exampleFilter t = None" "sharedHit exampleFilter t = None"
  "sharedReply exampleFilter t = Some RedisNil"
  "fetched exampleFilter = Some (Unmarshalled exampleTable)"
  "memoryCache exampleFilter = Some \<lparr>lru_size = 1000, evictList = []\<rparr>"
  "redisClient exampleFilter = Some coldRedis"
  "config exampleFilter = exampleConfig"
  by (simp_all add: localEntry_def sharedHit_def sharedReply_def fetched_def redis_Get_def
        lru_Peek_def exampleFilter_def coldRedis_def exampleStore_def exampleConfig_def)

lemma exampleTable_split:
  "Mappings exampleTable
     = [] @ \<lparr>TenantID = ''tenant1'', ShardID = ''shard-a''\<rparr>
          # [\<lparr>TenantID = ''acme'', ShardID = ''shard-c''\<rparr>]"
  "''missing'' \<notin> TenantID ` set (Mappings exampleTable)"
  by (simp_all add: exampleTable_def)

section \<open>Properties\<close>

text \<open>
  C1 (as the specification states it). The claim is that an unknown tenant yields an
  outcome that is not an error. On the example filter, whose table does not name the
  tenant \<^verbatim>\<open>missing\<close> and whose caches are empty, the lookup returns a non-nil error.
\<close>

theorem unknown_tenant_is_reported_as_error:
  "''missing'' \<notin> TenantID ` set (Mappings exampleTable)
   \<and> fetched exampleFilter = Some (Unmarshalled exampleTable)
   \<and> localEntry exampleFilter ''missing'' = None
   \<and> sharedReply exampleFilter ''missing'' = Some RedisNil
   \<and> fst (orchestratedLookup exampleFilter ''missing'')
       = ([], Some (Errorf ''no shard mapping found for tenant: missing''))
   \<and> snd (fst (orchestratedLookup exampleFilter ''missing'')) \<noteq> None"
  by (simp add: exampleFilter_cold exampleTable_split orchestratedLookup_miss tier3_absent)

text \<open>
  C1 (amended). For a tenant that the fetched table does not name and that no cache tier
  answers, the lookup returns the empty shard together with the error
  \<^verbatim>\<open>no shard mapping found for tenant: <tenant>\<close>. That error is an error value of its
  own: no failure of the store lookup (of any filter \<open>g\<close>, for any tenant \<open>u\<close>) is equal to
  it. Neither the in-process cache nor the shared cache is changed.
\<close>

theorem unknown_tenant_yields_no_mapping_error:
  assumes "localEntry f t = None" and "sharedHit f t = None"
    and "fetched f = Some (Unmarshalled md)"
    and "t \<notin> TenantID ` set (Mappings md)"
  shows "fst (orchestratedLookup f t)
       = ([], Some (Errorf (''no shard mapping found for tenant: '' @ t)))
     \<and> snd (fst (lookupInS3 g u)) \<noteq> Some (Errorf (''no shard mapping found for tenant: '' @ t))
     \<and> memoryCache (snd (orchestratedLookup f t)) = memoryCache f
     \<and> redisClient (snd (orchestratedLookup f t)) = redisClient f"
proof -
  have r: "fst (orchestratedLookup f t)
       = ([], Some (Errorf (''no shard mapping found for tenant: '' @ t)))"
    using assms by (simp add: orchestratedLookup_miss tier3_absent)
  have d: "snd (fst (lookupInS3 g u)) \<noteq> Some (Errorf (''no shard mapping found for tenant: '' @ t))"
    by (simp add: lookupInS3_fst split: option.splits s3_outcome.splits)
  have m: "memoryCache (snd (orchestratedLookup f t)) = memoryCache f"
    using assms(1) r
    by (simp add: orchestratedLookup_memoryCache localEntry_def split: option.splits)
  have s: "redisClient (snd (orchestratedLookup f t)) = redisClient f"
    using r by (simp add: orchestratedLookup_redisClient split: option.splits)
  show ?thesis using r d m s by simp
qed

theorem unknown_tenant_yields_no_mapping_error_witness:
  "localEntry exampleFilter ''missing'' = None \<and> sharedHit exampleFilter ''missing'' = None
   \<and> fetched exampleFilter = Some (Unmarshalled exampleTable)
   \<and> ''missing'' \<notin> TenantID ` set (Mappings exampleTable)
   \<and> fst (orchestratedLookup exampleFilter ''missing'')
       = ([], Some (Errorf ''no shard mapping found for tenant: missing''))
   \<and> memoryCache (snd (orchestratedLookup exampleFilter ''missing''))
       = Some \<lparr>lru_size = 1000, evictList = []\<rparr>
   \<and> redisClient (snd (orchestratedLookup exampleFilter ''missing'')) = Some coldRedis"
  using unknown_tenant_yields_no_mapping_error[OF exampleFilter_cold(1) exampleFilter_cold(2)
      exampleFilter_cold(4) exampleTable_split(2)]
  by (simp add: exampleFilter_cold exampleTable_split)

text \<open>
  C2. When the fetch of the table succeeds and the table names the tenant (\<open>m\<close> is the
  first entry for it) with a shard identifier, which by the data model is a non-empty
  string, the lookup returns that shard with a nil error. This holds when the in-process
  cache and the shared cache have nothing for the tenant, and also when either of them
  already holds the table's shard.
\<close>

theorem mapped_tenant_resolves_to_table_shard:
  assumes "fetched f = Some (Unmarshalled md)"
    and "Mappings md = pre @ m # post"
    and "t \<notin> TenantID ` set pre"
    and "TenantID m = t"
    and "ShardID m \<noteq> []"
    and "localEntry f t = None \<or> localEntry f t = Some (ShardID m)"
    and "sharedHit f t = None \<or> sharedHit f t = Some (ShardID m)"
  shows "fst (orchestratedLookup f t) = (ShardID m, None)"
  using assms(5,6,7) tier3_found[OF assms(1,2,3,4)]
  by (auto simp: orchestratedLookup_fst)

theorem mapped_tenant_resolves_to_table_shard_witness:
  "fetched exampleFilter = Some (Unmarshalled exampleTable)
   \<and> localEntry exampleFilter ''tenant1'' = None
   \<and> sharedHit exampleFilter ''tenant1'' = None
   \<and> fst (orchestratedLookup exampleFilter ''tenant1'') = (''shard-a'', None)"
proof -
  have h: "''tenant1'' \<notin> TenantID ` set []"
    "TenantID \<lparr>TenantID = ''tenant1'', ShardID = ''shard-a''\<rparr> = ''tenant1''"
    "ShardID \<lparr>TenantID = ''tenant1'', ShardID = ''shard-a''\<rparr> \<noteq> []"
    "localEntry exampleFilter ''tenant1'' = None
     \<or> localEntry exampleFilter ''tenant1''
         = Some (ShardID \<lparr>TenantID = ''tenant1'', ShardID = ''shard-a''\<rparr>)"
    "sharedHit exampleFilter ''tenant1'' = None
     \<or> sharedHit exampleFilter ''tenant1''
         = Some (ShardID \<lparr>TenantID = ''tenant1'', ShardID = ''shard-a''\<rparr>)"
    by (simp_all add: exampleFilter_cold)
  show ?thesis
    using mapped_tenant_resolves_to_table_shard[OF exampleFilter_cold(4) exampleTable_split(1) h]
    by (simp add: exampleFilter_cold)
qed

text \<open>
  C3. The operations of one lookup are issued in a fixed order: the in-process cache is
  read first; only on a miss there is the shared cache read; only without a hit there is
  the store fetched; writes into the faster tiers follow the read that found the shard.
  A hit in the in-process cache returns at once: the only operation is that read, and the
  shared-cache client and the store client are left as they were. After a lookup that
  returned a shard, a lookup for the same tenant on any filter \<open>g\<close> holding the
  in-process cache left by the first one (whatever the state of its other tiers) returns
  the same shard and issues the read of the in-process cache only.
\<close>

theorem local_cache_first_and_sufficient_after_found:
  assumes "memoryCache f = Some c" and "0 < lru_size c"
  shows "calls (snd (orchestratedLookup f t))
       = calls f @ MemoryGet t
         # (case localEntry f t of
              Some s \<Rightarrow> []
            | None \<Rightarrow>
                (case redisClient f of None \<Rightarrow> []
                 | Some r \<Rightarrow> [RedisGET (RedisKeyPrefix (config f) @ t)])
                @ (case sharedHit f t of
                     Some s \<Rightarrow> [MemoryAdd t s]
                   | None \<Rightarrow>
                       (case s3Client f of None \<Rightarrow> []
                        | Some r \<Rightarrow> [S3GetObject (S3Bucket (config f)) (S3Key (config f))])
                       @ (case fst (orchestratedLookup f t) of
                            (s, None) \<Rightarrow>
                              (case redisClient f of None \<Rightarrow> []
                               | Some r \<Rightarrow>
                                   [RedisSET (RedisKeyPrefix (config f) @ t) s
                                      (RedisTTL (config f))])
                              @ [MemoryAdd t s]
                          | (s, Some e) \<Rightarrow> [])))
     \<and> (localEntry f t = Some s
          \<longrightarrow> fst (orchestratedLookup f t) = (s, None)
              \<and> calls (snd (orchestratedLookup f t)) = calls f @ [MemoryGet t]
              \<and> redisClient (snd (orchestratedLookup f t)) = redisClient f
              \<and> s3Client (snd (orchestratedLookup f t)) = s3Client f)
     \<and> (fst (orchestratedLookup f t) = (s, None)
          \<and> memoryCache g = memoryCache (snd (orchestratedLookup f t))
          \<longrightarrow> fst (orchestratedLookup g t) = (s, None)
              \<and> calls (snd (orchestratedLookup g t)) = calls g @ [MemoryGet t]
              \<and> redisClient (snd (orchestratedLookup g t)) = redisClient g
              \<and> s3Client (snd (orchestratedLookup g t)) = s3Client g)"
proof -
  have order: "calls (snd (orchestratedLookup f t))
       = calls f @ MemoryGet t
         # (case localEntry f t of
              Some s \<Rightarrow> []
            | None \<Rightarrow>
                (case redisClient f of None \<Rightarrow> []
                 | Some r \<Rightarrow> [RedisGET (RedisKeyPrefix (config f) @ t)])
                @ (case sharedHit f t of
                     Some s \<Rightarrow> [MemoryAdd t s]
                   | None \<Rightarrow>
                       (case s3Client f of None \<Rightarrow> []
                        | Some r \<Rightarrow> [S3GetObject (S3Bucket (config f)) (S3Key (config f))])
                       @ (case fst (orchestratedLookup f t) of
                            (s, None) \<Rightarrow>
                              (case redisClient f of None \<Rightarrow> []
                               | Some r \<Rightarrow>
                                   [RedisSET (RedisKeyPrefix (config f) @ t) s
                                      (RedisTTL (config f))])
                              @ [MemoryAdd t s]
                          | (s, Some e) \<Rightarrow> [])))"
    using assms(1)
    by (simp add: orchestratedLookup_calls split: option.splits prod.splits)
  have hit: "fst (orchestratedLookup h t) = (s, None)
      \<and> calls (snd (orchestratedLookup h t)) = calls h @ [MemoryGet t]
      \<and> redisClient (snd (orchestratedLookup h t)) = redisClient h
      \<and> s3Client (snd (orchestratedLookup h t)) = s3Client h"
    if "localEntry h t = Some s" for h
    using that
    by (auto simp: orchestratedLookup_fst orchestratedLookup_calls orchestratedLookup_redisClient
          orchestratedLookup_env localEntry_def split: option.splits)
  have again: "localEntry g t = Some s"
    if "fst (orchestratedLookup f t) = (s, None)"
      and "memoryCache g = memoryCache (snd (orchestratedLookup f t))"
    using orchestratedLookup_localEntry[OF assms that(1)] that(2)
    by (simp add: localEntry_def)
  show ?thesis
    using order hit[of f] hit[of g] again by blast
qed

theorem local_cache_first_and_sufficient_after_found_witness:
  "memoryCache exampleFilter = Some \<lparr>lru_size = 1000, evictList = []\<rparr>
   \<and> fst (orchestratedLookup exampleFilter ''tenant1'') = (''shard-a'', None)
   \<and> calls (snd (orchestratedLookup exampleFilter ''tenant1''))
       = [MemoryGet ''tenant1'', RedisGET ''shard_router:tenant1'',
          S3GetObject ''tenant-mappings'' ''mappings.json'',
          RedisSET ''shard_router:tenant1'' ''shard-a'' 300000000000,
          MemoryAdd ''tenant1'' ''shard-a'']
   \<and> fst (orchestratedLookup (snd (orchestratedLookup exampleFilter ''tenant1'')) ''tenant1'')
       = (''shard-a'', None)
   \<and> calls (snd (orchestratedLookup (snd (orchestratedLookup exampleFilter ''tenant1''))
                 ''tenant1''))
       = calls (snd (orchestratedLookup exampleFilter ''tenant1'')) @ [MemoryGet ''tenant1'']
   \<and> localEntry fullCacheFilter ''a'' = Some ''shard-a''
   \<and> fst (orchestratedLookup fullCacheFilter ''a'') = (''shard-a'', None)
   \<and> calls (snd (orchestratedLookup fullCacheFilter ''a'')) = [MemoryGet ''a'']"
proof -
  have m: "memoryCache exampleFilter = Some \<lparr>lru_size = 1000, evictList = []\<rparr>"
    "0 < lru_size \<lparr>lru_size = 1000, evictList = []\<rparr>"
    by (simp_all add: exampleFilter_cold)
  have r: "fst (orchestratedLookup exampleFilter ''tenant1'') = (''shard-a'', None)"
    using tier3_found[OF exampleFilter_cold(4) exampleTable_split(1)]
    by (simp add: orchestratedLookup_miss exampleFilter_cold)
  have e: "s3Client exampleFilter = Some exampleStore" "calls exampleFilter = []"
    "RedisKeyPrefix exampleConfig = ''shard_router:''" "RedisTTL exampleConfig = 300000000000"
    "S3Bucket exampleConfig = ''tenant-mappings''" "S3Key exampleConfig = ''mappings.json''"
    by (simp_all add: exampleFilter_def exampleConfig_def)
  have fm: "memoryCache fullCacheFilter = Some exampleCache" "0 < lru_size exampleCache"
    "localEntry fullCacheFilter ''a'' = Some ''shard-a''" "calls fullCacheFilter = []"
    by (simp_all add: fullCacheFilter_def exampleCache_def exampleFilter_def localEntry_def
          lru_Peek_def)
  show ?thesis
    using m r e fm exampleFilter_cold
      local_cache_first_and_sufficient_after_found[OF m, of "''tenant1''" "''shard-a''"
        "snd (orchestratedLookup exampleFilter ''tenant1'')"]
      local_cache_first_and_sufficient_after_found[OF fm(1,2), of "''a''" "''shard-a''"
        fullCacheFilter]
    by simp
qed

text \<open>
  C4. When neither faster tier produces a hit, a failure of the store lookup is the
  result of the whole lookup: a failed request, a body that cannot be read and a document
  that does not parse each come back as the error of the lookup, with an empty shard;
  in general whatever error \<^verbatim>\<open>lookupInS3\<close> returns is returned unchanged.
\<close>

theorem store_failure_is_propagated:
  assumes "localEntry f t = None" and "sharedHit f t = None"
  shows "(fetched f = Some (GetObjectFails e)
           \<longrightarrow> fst (orchestratedLookup f t) = ([], Some (S3Error e)))
     \<and> (fetched f = Some (ReadAllFails e)
           \<longrightarrow> fst (orchestratedLookup f t) = ([], Some (ReadError e)))
     \<and> (fetched f = Some (UnmarshalFails e)
           \<longrightarrow> fst (orchestratedLookup f t) = ([], Some (UnmarshalError e)))
     \<and> (snd (fst (lookupInS3 f t)) = Some err
           \<longrightarrow> fst (orchestratedLookup f t) = ([], Some err))"
proof -
  have "snd (fst (lookupInS3 f t)) = Some err
           \<longrightarrow> fst (orchestratedLookup_tier3 f t) = ([], Some err)"
    by (simp add: tier3_alt Let_def)
  then show ?thesis
    using assms by (simp add: orchestratedLookup_miss tier3_fst)
qed

theorem store_failure_is_propagated_witness:
  "localEntry unreachableStoreFilter ''tenant1'' = None
   \<and> sharedHit unreachableStoreFilter ''tenant1'' = None
   \<and> fetched unreachableStoreFilter = Some (GetObjectFails ''RequestError'')
   \<and> fetched truncatedStoreFilter = Some (ReadAllFails ''unexpected EOF'')
   \<and> fetched garbledStoreFilter = Some (UnmarshalFails ''invalid character'')
   \<and> snd (fst (lookupInS3 garbledStoreFilter ''tenant1''))
       = Some (UnmarshalError ''invalid character'')
   \<and> fst (orchestratedLookup unreachableStoreFilter ''tenant1'')
       = ([], Some (S3Error ''RequestError''))
   \<and> fst (orchestratedLookup truncatedStoreFilter ''tenant1'')
       = ([], Some (ReadError ''unexpected EOF''))
   \<and> fst (orchestratedLookup garbledStoreFilter ''tenant1'')
       = ([], Some (UnmarshalError ''invalid character''))"
proof -
  have a: "localEntry unreachableStoreFilter ''tenant1'' = None"
    "sharedHit unreachableStoreFilter ''tenant1'' = None"
    "fetched unreachableStoreFilter = Some (GetObjectFails ''RequestError'')"
    by (simp_all add: unreachableStoreFilter_def localEntry_def sharedHit_def sharedReply_def
          fetched_def redis_Get_def lru_Peek_def exampleFilter_def coldRedis_def)
  have b: "localEntry truncatedStoreFilter ''tenant1'' = None"
    "sharedHit truncatedStoreFilter ''tenant1'' = None"
    "fetched truncatedStoreFilter = Some (ReadAllFails ''unexpected EOF'')"
    by (simp_all add: truncatedStoreFilter_def localEntry_def sharedHit_def sharedReply_def
          fetched_def redis_Get_def lru_Peek_def exampleFilter_def coldRedis_def)
  have c: "localEntry garbledStoreFilter ''tenant1'' = None"
    "sharedHit garbledStoreFilter ''tenant1'' = None"
    "fetched garbledStoreFilter = Some (UnmarshalFails ''invalid character'')"
    by (simp_all add: garbledStoreFilter_def localEntry_def sharedHit_def sharedReply_def
          fetched_def redis_Get_def lru_Peek_def exampleFilter_def coldRedis_def)
  have d: "snd (fst (lookupInS3 garbledStoreFilter ''tenant1''))
       = Some (UnmarshalError ''invalid character'')"
    using c(3) by (simp add: lookupInS3_fst)
  show ?thesis
    using a b c d
      store_failure_is_propagated[OF a(1) a(2), of "''RequestError''"]
      store_failure_is_propagated[OF b(1) b(2), of "''unexpected EOF''"]
      store_failure_is_propagated[OF c(1) c(2), of "''invalid character''"
        "UnmarshalError ''invalid character''"]
    by simp
qed

text \<open>
  C5. An error of the shared cache during the lookup is never the result of
  \<^verbatim>\<open>orchestratedLookup\<close>, for any filter \<open>g\<close> and tenant \<open>u\<close>. When the read of the shared
  cache fails, the failure is logged and the store is fetched; if the fetch succeeds and
  the table names the tenant with a shard, the lookup returns that shard, the write into
  the shared cache is attempted, and the in-process cache then holds the mapping.
\<close>

theorem shared_cache_error_is_not_surfaced:
  assumes "memoryCache f = Some c" and "0 < lru_size c"
    and "localEntry f t = None"
    and "sharedReply f t = Some (RedisFailed e)"
    and "fetched f = Some (Unmarshalled md)"
    and "Mappings md = pre @ m # post"
    and "t \<notin> TenantID ` set pre"
    and "TenantID m = t"
    and "ShardID m \<noteq> []"
  shows "snd (fst (orchestratedLookup g u)) \<noteq> Some (RedisError e')
     \<and> snd (fst (orchestratedLookup g u)) \<noteq> Some (Errorf ''redis client not initialized'')
     \<and> fst (orchestratedLookup f t) = (ShardID m, None)
     \<and> localEntry (snd (orchestratedLookup f t)) t = Some (ShardID m)
     \<and> Warnf (''Redis lookup failed for tenant '' @ t @ '': '' @ e)
         \<in> set (logs (snd (orchestratedLookup f t)))
     \<and> S3GetObject (S3Bucket (config f)) (S3Key (config f))
         \<in> set (calls (snd (orchestratedLookup f t)))
     \<and> RedisSET (RedisKeyPrefix (config f) @ t) (ShardID m) (RedisTTL (config f))
         \<in> set (calls (snd (orchestratedLookup f t)))"
proof -
  have never: "snd (fst (orchestratedLookup g u)) \<noteq> Some (RedisError e')
     \<and> snd (fst (orchestratedLookup g u)) \<noteq> Some (Errorf ''redis client not initialized'')"
    by (simp add: orchestratedLookup_fst tier3_fst
          split: option.splits s3_outcome.splits)
  have sh: "sharedHit f t = None"
    using assms(4) by (simp add: sharedHit_def)
  have r: "fst (orchestratedLookup f t) = (ShardID m, None)"
    using assms(3,9) sh tier3_found[OF assms(5,6,7,8)] by (simp add: orchestratedLookup_miss)
  have l: "localEntry (snd (orchestratedLookup f t)) t = Some (ShardID m)"
    using orchestratedLookup_localEntry[OF assms(1,2) r] .
  obtain h where h: "orchestratedLookup f t = orchestratedLookup_tier3 h t"
    and w: "Warnf (''Redis lookup failed for tenant '' @ t @ '': '' @ e) \<in> set (logs h)"
    using orchestratedLookup_to_tier3[OF assms(3) sh] assms(4) by blast
  have lg: "Warnf (''Redis lookup failed for tenant '' @ t @ '': '' @ e)
         \<in> set (logs (snd (orchestratedLookup f t)))"
    using w tier3_logs_mono[of h t] h by auto
  have cl: "redisClient f \<noteq> None" "s3Client f \<noteq> None"
    using assms(4,5) by (auto simp: sharedReply_def fetched_def split: option.splits)
  have cs: "S3GetObject (S3Bucket (config f)) (S3Key (config f))
         \<in> set (calls (snd (orchestratedLookup f t)))
     \<and> RedisSET (RedisKeyPrefix (config f) @ t) (ShardID m) (RedisTTL (config f))
         \<in> set (calls (snd (orchestratedLookup f t)))"
    using assms(1,3) sh r cl
    by (auto simp: orchestratedLookup_calls split: option.splits)
  show ?thesis
    using never r l lg cs by blast
qed

theorem shared_cache_error_is_not_surfaced_witness:
  "localEntry downRedisFilter ''tenant1'' = None
   \<and> sharedReply downRedisFilter ''tenant1'' = Some (RedisFailed ''i/o timeout'')
   \<and> fetched downRedisFilter = Some (Unmarshalled exampleTable)
   \<and> fst (orchestratedLookup downRedisFilter ''tenant1'') = (''shard-a'', None)
   \<and> localEntry (snd (orchestratedLookup downRedisFilter ''tenant1'')) ''tenant1''
       = Some ''shard-a''
   \<and> Warnf ''Redis lookup failed for tenant tenant1: i/o timeout''
       \<in> set (logs (snd (orchestratedLookup downRedisFilter ''tenant1'')))"
proof -
  have a: "memoryCache downRedisFilter = Some \<lparr>lru_size = 1000, evictList = []\<rparr>"
    "0 < lru_size \<lparr>lru_size = 1000, evictList = []\<rparr>"
    "localEntry downRedisFilter ''tenant1'' = None"
    "sharedReply downRedisFilter ''tenant1'' = Some (RedisFailed ''i/o timeout'')"
    "fetched downRedisFilter = Some (Unmarshalled exampleTable)"
    by (simp_all add: downRedisFilter_def downRedis_def exampleFilter_def localEntry_def
          sharedReply_def redis_Get_def fetched_def lru_Peek_def exampleStore_def
          exampleConfig_def)
  have b: "''tenant1'' \<notin> TenantID ` set []"
    "TenantID \<lparr>TenantID = ''tenant1'', ShardID = ''shard-a''\<rparr> = ''tenant1''"
    "ShardID \<lparr>TenantID = ''tenant1'', ShardID = ''shard-a''\<rparr> \<noteq> []"
    by simp_all
  show ?thesis
    using a shared_cache_error_is_not_surfaced[OF a exampleTable_split(1) b]
    by simp
qed

text \<open>
  C6. A shard found at the shared cache is written into the in-process cache before the
  lookup returns it. A shard found at the store is written into the shared cache and into
  the in-process cache; when the write into the shared cache fails, the failure is logged,
  the shared cache stays as it was, and the lookup still returns the shard and fills the
  in-process cache.
\<close>

theorem found_shard_is_written_back:
  assumes "memoryCache f = Some c" and "0 < lru_size c"
    and "localEntry f t = None"
  shows "(sharedHit f t = Some s
           \<longrightarrow> fst (orchestratedLookup f t) = (s, None)
               \<and> localEntry (snd (orchestratedLookup f t)) t = Some s
               \<and> MemoryAdd t s \<in> set (calls (snd (orchestratedLookup f t))))
     \<and> (sharedHit f t = None \<and> fetched f = Some (Unmarshalled md)
          \<and> Mappings md = pre @ m # post \<and> t \<notin> TenantID ` set pre \<and> TenantID m = t
          \<and> ShardID m \<noteq> [] \<and> redisClient f = Some r
           \<longrightarrow> fst (orchestratedLookup f t) = (ShardID m, None)
               \<and> localEntry (snd (orchestratedLookup f t)) t = Some (ShardID m)
               \<and> RedisSET (RedisKeyPrefix (config f) @ t) (ShardID m) (RedisTTL (config f))
                   \<in> set (calls (snd (orchestratedLookup f t)))
               \<and> MemoryAdd t (ShardID m) \<in> set (calls (snd (orchestratedLookup f t)))
               \<and> (redis_set_fault r = None
                    \<longrightarrow> sharedData (snd (orchestratedLookup f t))
                          = (sharedData f)(RedisKeyPrefix (config f) @ t \<mapsto> ShardID m))
               \<and> (redis_set_fault r = Some e
                    \<longrightarrow> sharedData (snd (orchestratedLookup f t)) = sharedData f
                        \<and> Warnf (''Failed to cache in Redis: '' @ e)
                            \<in> set (logs (snd (orchestratedLookup f t)))))"
proof -
  have shared: "fst (orchestratedLookup f t) = (s, None)
               \<and> localEntry (snd (orchestratedLookup f t)) t = Some s
               \<and> MemoryAdd t s \<in> set (calls (snd (orchestratedLookup f t)))"
    if h: "sharedHit f t = Some s"
  proof -
    have r: "fst (orchestratedLookup f t) = (s, None)"
      using assms(3) h by (simp add: orchestratedLookup_fst)
    have "MemoryAdd t s \<in> set (calls (snd (orchestratedLookup f t)))"
      using assms(1,3) h by (simp add: orchestratedLookup_calls split: option.splits)
    with r orchestratedLookup_localEntry[OF assms(1,2) r] show ?thesis by simp
  qed
  have store: "fst (orchestratedLookup f t) = (ShardID m, None)
               \<and> localEntry (snd (orchestratedLookup f t)) t = Some (ShardID m)
               \<and> RedisSET (RedisKeyPrefix (config f) @ t) (ShardID m) (RedisTTL (config f))
                   \<in> set (calls (snd (orchestratedLookup f t)))
               \<and> MemoryAdd t (ShardID m) \<in> set (calls (snd (orchestratedLookup f t)))
               \<and> (redis_set_fault r = None
                    \<longrightarrow> sharedData (snd (orchestratedLookup f t))
                          = (sharedData f)(RedisKeyPrefix (config f) @ t \<mapsto> ShardID m))
               \<and> (redis_set_fault r = Some e
                    \<longrightarrow> sharedData (snd (orchestratedLookup f t)) = sharedData f
                        \<and> Warnf (''Failed to cache in Redis: '' @ e)
                            \<in> set (logs (snd (orchestratedLookup f t))))"
    if sh: "sharedHit f t = None" and fe: "fetched f = Some (Unmarshalled md)"
      and sp: "Mappings md = pre @ m # post" "t \<notin> TenantID ` set pre" "TenantID m = t"
      and ne: "ShardID m \<noteq> []" and rc: "redisClient f = Some r"
  proof -
    have res: "fst (orchestratedLookup f t) = (ShardID m, None)"
      using assms(3) sh ne tier3_found[OF fe sp] by (simp add: orchestratedLookup_miss)
    have loc: "localEntry (snd (orchestratedLookup f t)) t = Some (ShardID m)"
      using orchestratedLookup_localEntry[OF assms(1,2) res] .
    have cs: "RedisSET (RedisKeyPrefix (config f) @ t) (ShardID m) (RedisTTL (config f))
                   \<in> set (calls (snd (orchestratedLookup f t)))
               \<and> MemoryAdd t (ShardID m) \<in> set (calls (snd (orchestratedLookup f t)))"
      using assms(1,3) sh res rc
      by (auto simp: orchestratedLookup_calls split: option.splits)
    have cl: "redisClient (snd (orchestratedLookup f t))
        = Some (snd (redis_Set r (RedisKeyPrefix (config f) @ t) (ShardID m)
                       (RedisTTL (config f))))"
      using assms(3) sh res rc by (simp add: orchestratedLookup_redisClient)
    have ok: "sharedData (snd (orchestratedLookup f t))
                = (sharedData f)(RedisKeyPrefix (config f) @ t \<mapsto> ShardID m)"
      if "redis_set_fault r = None"
      using that cl rc by (simp add: sharedData_def redis_Set_def)
    have ko: "sharedData (snd (orchestratedLookup f t)) = sharedData f"
      if "redis_set_fault r = Some e"
      using that cl rc by (simp add: sharedData_def redis_Set_def)
    obtain h where h: "orchestratedLookup f t = orchestratedLookup_tier3 h t"
      and hr: "redisClient h = redisClient f"
      using orchestratedLookup_to_tier3[OF assms(3) sh] by blast
    have lg: "Warnf (''Failed to cache in Redis: '' @ e)
                 \<in> set (logs (snd (orchestratedLookup f t)))"
      if "redis_set_fault r = Some e"
      using tier3_set_failure_logged[of h r e t] that hr rc res h by simp
    show ?thesis
      using res loc cs ok ko lg by blast
  qed
  show ?thesis
    using shared store by blast
qed

theorem found_shard_is_written_back_witness:
  "localEntry warmRedisFilter ''acme'' = None \<and> sharedHit warmRedisFilter ''acme'' = Some ''shard-c''
   \<and> fst (orchestratedLookup warmRedisFilter ''acme'') = (''shard-c'', None)
   \<and> localEntry (snd (orchestratedLookup warmRedisFilter ''acme'')) ''acme'' = Some ''shard-c''
   \<and> sharedHit exampleFilter ''tenant1'' = None \<and> redis_set_fault coldRedis = None
   \<and> fst (orchestratedLookup exampleFilter ''tenant1'') = (''shard-a'', None)
   \<and> localEntry (snd (orchestratedLookup exampleFilter ''tenant1'')) ''tenant1'' = Some ''shard-a''
   \<and> sharedData (snd (orchestratedLookup exampleFilter ''tenant1''))
       = [''shard_router:tenant1'' \<mapsto> ''shard-a'']
   \<and> redis_set_fault readOnlyRedis = Some ''READONLY''
   \<and> fst (orchestratedLookup readOnlyRedisFilter ''tenant1'') = (''shard-a'', None)
   \<and> localEntry (snd (orchestratedLookup readOnlyRedisFilter ''tenant1'')) ''tenant1''
       = Some ''shard-a''
   \<and> sharedData (snd (orchestratedLookup readOnlyRedisFilter ''tenant1'')) = Map.empty
   \<and> Warnf ''Failed to cache in Redis: READONLY''
       \<in> set (logs (snd (orchestratedLookup readOnlyRedisFilter ''tenant1'')))"
proof -
  have w: "memoryCache warmRedisFilter = Some \<lparr>lru_size = 1000, evictList = []\<rparr>"
    "0 < lru_size \<lparr>lru_size = 1000, evictList = []\<rparr>"
    "localEntry warmRedisFilter ''acme'' = None"
    "sharedHit warmRedisFilter ''acme'' = Some ''shard-c''"
    by (simp_all add: warmRedisFilter_def warmRedis_def exampleFilter_def localEntry_def
          sharedHit_def sharedReply_def redis_Get_def lru_Peek_def exampleConfig_def)
  have c: "redis_set_fault coldRedis = None" "sharedData exampleFilter = Map.empty"
    "RedisKeyPrefix exampleConfig = ''shard_router:''"
    by (simp_all add: coldRedis_def sharedData_def exampleFilter_def exampleConfig_def)
  have o: "memoryCache readOnlyRedisFilter = Some \<lparr>lru_size = 1000, evictList = []\<rparr>"
    "localEntry readOnlyRedisFilter ''tenant1'' = None"
    "sharedHit readOnlyRedisFilter ''tenant1'' = None"
    "fetched readOnlyRedisFilter = Some (Unmarshalled exampleTable)"
    "redisClient readOnlyRedisFilter = Some readOnlyRedis"
    "redis_set_fault readOnlyRedis = Some ''READONLY''"
    "sharedData readOnlyRedisFilter = Map.empty"
    by (simp_all add: readOnlyRedisFilter_def readOnlyRedis_def exampleFilter_def localEntry_def
          sharedHit_def sharedReply_def redis_Get_def fetched_def lru_Peek_def exampleStore_def
          exampleConfig_def sharedData_def)
  have t: "''tenant1'' \<notin> TenantID ` set []"
    "TenantID \<lparr>TenantID = ''tenant1'', ShardID = ''shard-a''\<rparr> = ''tenant1''"
    "ShardID \<lparr>TenantID = ''tenant1'', ShardID = ''shard-a''\<rparr> \<noteq> []"
    by simp_all
  show ?thesis
    using w c o t exampleFilter_cold exampleTable_split(1)
      found_shard_is_written_back[OF w(1,2,3), of "''shard-c''"]
      found_shard_is_written_back[OF exampleFilter_cold(5) w(2) exampleFilter_cold(1),
        of "''tenant1''" "''shard-a''" exampleTable "[]"
           "\<lparr>TenantID = ''tenant1'', ShardID = ''shard-a''\<rparr>"
           "[\<lparr>TenantID = ''acme'', ShardID = ''shard-c''\<rparr>]" coldRedis]
      found_shard_is_written_back[OF o(1) w(2) o(2),
        of "''shard-a''" exampleTable "[]"
           "\<lparr>TenantID = ''tenant1'', ShardID = ''shard-a''\<rparr>"
           "[\<lparr>TenantID = ''acme'', ShardID = ''shard-c''\<rparr>]" readOnlyRedis "''READONLY''"]
    by simp
qed

text \<open>
  C7. As long as no entry of the in-process cache has an empty shard, which is so for the
  empty cache \<^verbatim>\<open>filterFactory\<close> builds, a lookup keeps it so; it never returns an empty shard
  with a nil error; it issues no write of an empty shard to the in-process cache or to the
  shared cache, and the shared cache gains no empty value. A lookup that ends in an error
  (no mapping, or a failure of the store) leaves both caches as they were. An empty string
  read from the shared cache gives the same result as a miss there, and an empty shard in
  the table gives the same result as a table that does not name the tenant.
\<close>

theorem empty_shard_is_never_stored_or_returned:
  assumes "localNonEmpty f"
  shows "localNonEmpty (snd (orchestratedLookup f t))
     \<and> (snd (fst (orchestratedLookup f t)) = None \<longrightarrow> fst (fst (orchestratedLookup f t)) \<noteq> [])
     \<and> (sharedData (snd (orchestratedLookup f t)) k = Some [] \<longrightarrow> sharedData f k = Some [])
     \<and> MemoryAdd k [] \<notin> set (drop (length (calls f)) (calls (snd (orchestratedLookup f t))))
     \<and> RedisSET k [] d \<notin> set (drop (length (calls f)) (calls (snd (orchestratedLookup f t))))
     \<and> (snd (fst (orchestratedLookup f t)) \<noteq> None
          \<longrightarrow> memoryCache (snd (orchestratedLookup f t)) = memoryCache f
              \<and> redisClient (snd (orchestratedLookup f t)) = redisClient f)
     \<and> (localEntry f t = None \<and> sharedReply f t = Some (RedisValue [])
          \<and> localEntry g t = None \<and> sharedReply g t = Some RedisNil \<and> fetched g = fetched f
          \<longrightarrow> fst (orchestratedLookup f t) = fst (orchestratedLookup g t))
     \<and> (localEntry f t = None \<and> sharedHit f t = None \<and> fetched f = Some (Unmarshalled md)
          \<and> Mappings md = pre @ m # post \<and> t \<notin> TenantID ` set pre \<and> TenantID m = t
          \<and> ShardID m = []
          \<longrightarrow> fst (orchestratedLookup f t)
               = ([], Some (Errorf (''no shard mapping found for tenant: '' @ t))))
     \<and> (filterFactory conf redis sess = Some f0 \<longrightarrow> localNonEmpty f0)"
proof -
  let ?res = "fst (orchestratedLookup f t)"
  let ?f' = "snd (orchestratedLookup f t)"
  have ne: "snd ?res = None \<longrightarrow> fst ?res \<noteq> []"
    using orchestratedLookup_found_nonempty[OF assms, of t] by blast
  have ne': "\<And>s. ?res = (s, None) \<Longrightarrow> s \<noteq> []"
    using ne by auto
  have ne'': "\<And>s. (s, None) = ?res \<Longrightarrow> s \<noteq> []"
    using ne' by metis
  have inv: "localNonEmpty ?f'"
  proof (cases "memoryCache f")
    case None
    then show ?thesis by (simp add: localNonEmpty_def orchestratedLookup_memoryCache)
  next
    case (Some c)
    with assms have c: "list_all (\<lambda>e. snd e \<noteq> []) (evictList c)"
      by (simp add: localNonEmpty_def)
    show ?thesis
    proof (cases "lru_Peek c t")
      case hit: (Some s)
      with Some c show ?thesis
        by (simp add: localNonEmpty_def orchestratedLookup_memoryCache nonempty_Get)
    next
      case None
      show ?thesis
      proof (cases "snd ?res")
        case err: (Some e)
        with Some None c show ?thesis
          by (cases ?res) (simp add: localNonEmpty_def orchestratedLookup_memoryCache)
      next
        case ok: None
        with ne' have "fst ?res \<noteq> []" by (cases ?res) simp
        with Some None c ok show ?thesis
          by (cases ?res)
             (simp add: localNonEmpty_def orchestratedLookup_memoryCache nonempty_Add)
      qed
    qed
  qed
  have shared: "sharedData ?f' k = Some [] \<longrightarrow> sharedData f k = Some []"
    using ne'
    by (auto simp: sharedData_def orchestratedLookup_redisClient redis_Set_def
          split: option.splits prod.splits if_splits)
  have new: "drop (length (calls f)) (calls ?f')
      = (case memoryCache f of None \<Rightarrow> [] | Some c \<Rightarrow> [MemoryGet t])
       @ (case localEntry f t of
            Some s \<Rightarrow> []
          | None \<Rightarrow>
              (case redisClient f of None \<Rightarrow> []
               | Some c \<Rightarrow> [RedisGET (RedisKeyPrefix (config f) @ t)])
              @ (case sharedHit f t of
                   Some s \<Rightarrow> (case memoryCache f of None \<Rightarrow> [] | Some c \<Rightarrow> [MemoryAdd t s])
                 | None \<Rightarrow>
                     (case s3Client f of None \<Rightarrow> []
                      | Some c \<Rightarrow> [S3GetObject (S3Bucket (config f)) (S3Key (config f))])
                     @ (case ?res of
                          (s, None) \<Rightarrow>
                            (case redisClient f of None \<Rightarrow> []
                             | Some c \<Rightarrow>
                                 [RedisSET (RedisKeyPrefix (config f) @ t) s (RedisTTL (config f))])
                            @ (case memoryCache f of None \<Rightarrow> [] | Some c \<Rightarrow> [MemoryAdd t s])
                        | (s, Some e) \<Rightarrow> [])))"
    by (simp add: orchestratedLookup_calls)
  have writes: "MemoryAdd k [] \<notin> set (drop (length (calls f)) (calls ?f'))
     \<and> RedisSET k [] d \<notin> set (drop (length (calls f)) (calls ?f'))"
    unfolding new using ne' ne'' sharedHit_nonempty[of f t]
    by (auto split: option.splits prod.splits)
  have err: "snd ?res \<noteq> None
          \<longrightarrow> memoryCache ?f' = memoryCache f \<and> redisClient ?f' = redisClient f"
  proof
    assume "snd ?res \<noteq> None"
    then obtain e where e: "snd ?res = Some e" by auto
    then have r: "?res = ([], Some e)"
      using orchestratedLookup_error_has_empty_shard(1)[OF e] by (cases ?res) simp
    have l: "localEntry f t = None"
      using orchestratedLookup_error_has_empty_shard(2)[OF e] .
    show "memoryCache ?f' = memoryCache f \<and> redisClient ?f' = redisClient f"
      using r l
      by (simp add: orchestratedLookup_memoryCache orchestratedLookup_redisClient localEntry_def
            split: option.splits)
  qed
  have redis_empty: "localEntry f t = None \<and> sharedReply f t = Some (RedisValue [])
          \<and> localEntry g t = None \<and> sharedReply g t = Some RedisNil \<and> fetched g = fetched f
          \<longrightarrow> ?res = fst (orchestratedLookup g t)"
    by (simp add: orchestratedLookup_fst sharedHit_def tier3_fst)
  have store_empty: "localEntry f t = None \<and> sharedHit f t = None
          \<and> fetched f = Some (Unmarshalled md)
          \<and> Mappings md = pre @ m # post \<and> t \<notin> TenantID ` set pre \<and> TenantID m = t
          \<and> ShardID m = []
          \<longrightarrow> ?res = ([], Some (Errorf (''no shard mapping found for tenant: '' @ t)))"
    using tier3_found[of f md pre m post t] by (simp add: orchestratedLookup_miss)
  have start: "filterFactory conf redis sess = Some f0 \<longrightarrow> localNonEmpty f0"
    by (auto simp: filterFactory_def lru_New_def localNonEmpty_def
          split: if_splits option.splits)
  show ?thesis
    using inv ne shared writes err redis_empty store_empty start by blast
qed

theorem empty_shard_is_never_stored_or_returned_witness:
  "localNonEmpty emptyValueRedisFilter
   \<and> localNonEmpty (snd (orchestratedLookup emptyValueRedisFilter ''tenant1''))
   \<and> sharedReply emptyValueRedisFilter ''tenant1'' = Some (RedisValue [])
   \<and> sharedReply exampleFilter ''tenant1'' = Some RedisNil
   \<and> fst (orchestratedLookup emptyValueRedisFilter ''tenant1'')
       = fst (orchestratedLookup exampleFilter ''tenant1'')
   \<and> localNonEmpty emptyShardFilter
   \<and> fetched emptyShardFilter = Some (Unmarshalled emptyShardTable)
   \<and> fst (orchestratedLookup emptyShardFilter ''ghost'')
       = ([], Some (Errorf ''no shard mapping found for tenant: ghost''))
   \<and> memoryCache (snd (orchestratedLookup emptyShardFilter ''ghost''))
       = memoryCache emptyShardFilter
   \<and> redisClient (snd (orchestratedLookup emptyShardFilter ''ghost''))
       = redisClient emptyShardFilter"
proof -
  have a: "localNonEmpty emptyValueRedisFilter"
    "localEntry emptyValueRedisFilter ''tenant1'' = None"
    "sharedReply emptyValueRedisFilter ''tenant1'' = Some (RedisValue [])"
    "fetched exampleFilter = fetched emptyValueRedisFilter"
    by (simp_all add: emptyValueRedisFilter_def emptyValueRedis_def exampleFilter_def
          localNonEmpty_def localEntry_def sharedReply_def redis_Get_def fetched_def
          lru_Peek_def exampleConfig_def)
  have b: "localNonEmpty emptyShardFilter"
    "localEntry emptyShardFilter ''ghost'' = None"
    "sharedHit emptyShardFilter ''ghost'' = None"
    "fetched emptyShardFilter = Some (Unmarshalled emptyShardTable)"
    by (simp_all add: emptyShardFilter_def exampleFilter_def coldRedis_def
          localNonEmpty_def localEntry_def sharedHit_def sharedReply_def redis_Get_def
          fetched_def lru_Peek_def)
  have c: "Mappings emptyShardTable
      = [\<lparr>TenantID = ''tenant1'', ShardID = ''shard-a''\<rparr>]
        @ \<lparr>TenantID = ''ghost'', ShardID = []\<rparr> # []"
    "''ghost'' \<notin> TenantID ` set [\<lparr>TenantID = ''tenant1'', ShardID = ''shard-a''\<rparr>]"
    by (simp_all add: emptyShardTable_def)
  show ?thesis
    using a b c exampleFilter_cold
      empty_shard_is_never_stored_or_returned[OF a(1), of "''tenant1''" _ _ exampleFilter]
      empty_shard_is_never_stored_or_returned[OF b(1), of "''ghost''" _ _ _ emptyShardTable
        "[\<lparr>TenantID = ''tenant1'', ShardID = ''shard-a''\<rparr>]"
        "\<lparr>TenantID = ''ghost'', ShardID = []\<rparr>" "[]"]
    by simp
qed

text \<open>
  C8. If the fetched table names the tenant more than once, \<^verbatim>\<open>lookupInS3\<close> returns the
  shard of the first entry for the tenant in document order: whatever follows that entry
  (\<open>post\<close>), the result is its \<^verbatim>\<open>ShardID\<close>, with a nil error.
\<close>

theorem lookupInS3_first_match_wins:
  assumes "fetched f = Some (Unmarshalled md)"
    and "Mappings md = pre @ m # post"
    and "t \<notin> TenantID ` set pre"
    and "TenantID m = t"
  shows "fst (lookupInS3 f t) = (ShardID m, None)"
  using assms by (simp add: lookupInS3_fst searchMappings_first)

theorem lookupInS3_first_match_wins_witness:
  "fetched duplicateFilter = Some (Unmarshalled duplicateTable)
   \<and> Mappings duplicateTable
       = [\<lparr>TenantID = ''acme'', ShardID = ''shard-c''\<rparr>]
         @ \<lparr>TenantID = ''tenant1'', ShardID = ''shard-a''\<rparr>
         # [\<lparr>TenantID = ''tenant1'', ShardID = ''shard-b''\<rparr>]
   \<and> ''tenant1'' \<notin> TenantID ` set [\<lparr>TenantID = ''acme'', ShardID = ''shard-c''\<rparr>]
   \<and> fst (lookupInS3 duplicateFilter ''tenant1'') = (''shard-a'', None)"
proof -
  have h1: "fetched duplicateFilter = Some (Unmarshalled duplicateTable)"
    by (simp add: fetched_def duplicateFilter_def)
  have h2: "Mappings duplicateTable
       = [\<lparr>TenantID = ''acme'', ShardID = ''shard-c''\<rparr>]
         @ \<lparr>TenantID = ''tenant1'', ShardID = ''shard-a''\<rparr>
         # [\<lparr>TenantID = ''tenant1'', ShardID = ''shard-b''\<rparr>]"
    by (simp add: duplicateTable_def)
  have h3: "''tenant1'' \<notin> TenantID ` set [\<lparr>TenantID = ''acme'', ShardID = ''shard-c''\<rparr>]"
    by simp
  have h4: "TenantID \<lparr>TenantID = ''tenant1'', ShardID = ''shard-a''\<rparr> = ''tenant1''"
    by simp
  show ?thesis
    using h1 h2 h3 lookupInS3_first_match_wins[OF h1 h2 h3 h4] by simp
qed

text \<open>
  C9. The in-process cache of a filter is created with the configured capacity and never
  holds more entries than that: \<^verbatim>\<open>cacheInMemory\<close> and \<^verbatim>\<open>lookupInMemoryCache\<close> keep the
  cache well formed and its capacity unchanged. When the cache is full, adding a new key
  drops exactly the last entry of the recency list, the least recently used one. A hit
  moves the entry to the front, so that after touching the oldest entry \<open>a\<close> and adding
  a new key, \<open>a\<close> is still there and the next oldest entry \<open>b\<close> is the one dropped.
\<close>

theorem memoryCache_bounded_lru:
  assumes "memoryCache f = Some c" and "lru_wf c"
  shows "memoryCache (cacheInMemory f k v) = Some (lru_Add c k v)
     \<and> memoryCache (snd (lookupInMemoryCache f k)) = Some (snd (lru_Get c k))
     \<and> lru_wf (lru_Add c k v) \<and> lru_wf (snd (lru_Get c k))
     \<and> lru_size (lru_Add c k v) = lru_size c \<and> lru_size (snd (lru_Get c k)) = lru_size c
     \<and> length (evictList (lru_Add c k v)) \<le> lru_size c
     \<and> length (evictList (snd (lru_Get c k))) \<le> lru_size c
     \<and> (length (evictList c) = lru_size c \<and> lru_Peek c k = None
          \<longrightarrow> evictList (lru_Add c k v) = (k, v) # butlast (evictList c))
     \<and> (lru_Peek c k' = Some v'
          \<longrightarrow> fst (lookupInMemoryCache f k') = (v', True)
              \<and> evictList (snd (lru_Get c k'))
                  = (k', v') # filter (\<lambda>e. fst e \<noteq> k') (evictList c))
     \<and> (length (evictList c) = lru_size c \<and> lru_Peek c k = None \<and> evictList c = xs @ [b, a]
          \<longrightarrow> evictList (lru_Add (snd (lru_Get c (fst a))) k v) = (k, v) # a # xs)
     \<and> (filterFactory conf redis sess = Some f0
          \<longrightarrow> memoryCache f0 = Some \<lparr>lru_size = nat (MemoryCacheSize conf), evictList = []\<rparr>
              \<and> lru_wf \<lparr>lru_size = nat (MemoryCacheSize conf), evictList = []\<rparr>)"
proof -
  have wa: "lru_wf (lru_Add c k v)" and wg: "lru_wf (snd (lru_Get c k))"
    using assms(2) by (rule lru_wf_Add, rule lru_wf_Get)
  have la: "length (evictList (lru_Add c k v)) \<le> lru_size c"
    using wa by (simp add: lru_wf_def)
  have lg: "length (evictList (snd (lru_Get c k))) \<le> lru_size c"
    using wg by (simp add: lru_wf_def)
  have pos: "0 < lru_size c"
    using assms(2) by (simp add: lru_wf_def)
  have full: "length (evictList c) = lru_size c \<and> lru_Peek c k = None
          \<longrightarrow> evictList (lru_Add c k v) = (k, v) # butlast (evictList c)"
    using lru_Add_full_new[OF pos] by blast
  have hit: "lru_Peek c k' = Some v'
          \<longrightarrow> fst (lookupInMemoryCache f k') = (v', True)
              \<and> evictList (snd (lru_Get c k'))
                  = (k', v') # filter (\<lambda>e. fst e \<noteq> k') (evictList c)"
    using assms(1)
    by (simp add: lookupInMemoryCache_fst localEntry_def lru_Get_hit moveToFront_def)
  have touch: "length (evictList c) = lru_size c \<and> lru_Peek c k = None
          \<and> evictList c = xs @ [b, a]
          \<longrightarrow> evictList (lru_Add (snd (lru_Get c (fst a))) k v) = (k, v) # a # xs"
    using touch_then_add[OF assms(2)] by blast
  have fac: "filterFactory conf redis sess = Some f0
          \<longrightarrow> memoryCache f0 = Some \<lparr>lru_size = nat (MemoryCacheSize conf), evictList = []\<rparr>
              \<and> lru_wf \<lparr>lru_size = nat (MemoryCacheSize conf), evictList = []\<rparr>"
    by (auto simp: filterFactory_def lru_New_def lru_wf_def split: if_splits option.splits)
  have m1: "memoryCache (cacheInMemory f k v) = Some (lru_Add c k v)"
    using assms(1) by (simp add: cacheInMemory_fields)
  have m2: "memoryCache (snd (lookupInMemoryCache f k)) = Some (snd (lru_Get c k))"
    using assms(1) by (simp add: lookupInMemoryCache_snd)
  show ?thesis
    using wa wg la lg full hit touch fac m1 m2 by (simp only: lru_size_keep simp_thms)
qed

theorem memoryCache_bounded_lru_witness:
  "memoryCache fullCacheFilter = Some exampleCache \<and> lru_wf exampleCache
   \<and> length (evictList exampleCache) = lru_size exampleCache
   \<and> lru_Peek exampleCache ''d'' = None
   \<and> lru_Peek exampleCache ''a'' = Some ''shard-a''
   \<and> evictList exampleCache = [(''c'', ''shard-c'')] @ [(''b'', ''shard-b''), (''a'', ''shard-a'')]
   \<and> filterFactory exampleConfig coldRedis (Some exampleStore) = Some exampleFilter
   \<and> length (evictList (lru_Add exampleCache ''d'' ''shard-d'')) \<le> 3
   \<and> evictList (lru_Add exampleCache ''d'' ''shard-d'')
       = [(''d'', ''shard-d''), (''c'', ''shard-c''), (''b'', ''shard-b'')]
   \<and> fst (lookupInMemoryCache fullCacheFilter ''a'') = (''shard-a'', True)
   \<and> evictList (lru_Add (snd (lru_Get exampleCache ''a'')) ''d'' ''shard-d'')
       = [(''d'', ''shard-d''), (''a'', ''shard-a''), (''c'', ''shard-c'')]
   \<and> memoryCache exampleFilter = Some \<lparr>lru_size = 1000, evictList = []\<rparr>"
proof -
  have h1: "memoryCache fullCacheFilter = Some exampleCache"
    by (simp add: fullCacheFilter_def)
  have h2: "lru_wf exampleCache"
    by (simp add: lru_wf_def exampleCache_def)
  have h3: "length (evictList exampleCache) = lru_size exampleCache"
    "lru_Peek exampleCache ''d'' = None"
    "lru_Peek exampleCache ''a'' = Some ''shard-a''"
    "evictList exampleCache = [(''c'', ''shard-c'')] @ [(''b'', ''shard-b''), (''a'', ''shard-a'')]"
    by (simp_all add: exampleCache_def lru_Peek_def)
  have h4: "filterFactory exampleConfig coldRedis (Some exampleStore) = Some exampleFilter"
    by (simp add: filterFactory_def lru_New_def exampleConfig_def exampleFilter_def)
  have e: "lru_size exampleCache = 3" "butlast (evictList exampleCache)
       = [(''c'', ''shard-c''), (''b'', ''shard-b'')]"
    "MemoryCacheSize exampleConfig = 1000"
    by (simp_all add: exampleCache_def exampleConfig_def)
  show ?thesis
    using h1 h2 h3 h4 e
      memoryCache_bounded_lru[OF h1 h2, of "''d''" "''shard-d''" "''a''" "''shard-a''"
        "[(''c'', ''shard-c'')]" "(''b'', ''shard-b'')" "(''a'', ''shard-a'')"
        exampleConfig coldRedis "Some exampleStore" exampleFilter]
    by simp
qed

text \<open>
  C10. \<^verbatim>\<open>Merge\<close> returns the address of a new object and changes no object that existed
  before, the parent in particular. In the new object every field is the child's value
  when that is not the zero value of its type, and the parent's value otherwise: a child
  field that is the empty string, the number 0 or the duration 0 never replaces the
  parent's setting.
\<close>

theorem Merge_zero_child_field_keeps_parent:
  fixes h :: config_store and parent child :: nat
  defines "p \<equiv> h ! parent" and "c \<equiv> h ! child"
  assumes "Merge h parent child = Some (a, h')"
  shows "a = length h \<and> length h' = Suc (length h)
     \<and> (\<forall>i<length h. h' ! i = h ! i) \<and> h' ! parent = p \<and> h' ! child = c
     \<and> S3Bucket (h' ! a) = (if S3Bucket c = [] then S3Bucket p else S3Bucket c)
     \<and> S3Key (h' ! a) = (if S3Key c = [] then S3Key p else S3Key c)
     \<and> S3Region (h' ! a) = (if S3Region c = [] then S3Region p else S3Region c)
     \<and> S3Endpoint (h' ! a) = (if S3Endpoint c = [] then S3Endpoint p else S3Endpoint c)
     \<and> RedisAddr (h' ! a) = (if RedisAddr c = [] then RedisAddr p else RedisAddr c)
     \<and> RedisPassword (h' ! a)
         = (if RedisPassword c = [] then RedisPassword p else RedisPassword c)
     \<and> RedisDB (h' ! a) = (if RedisDB c = 0 then RedisDB p else RedisDB c)
     \<and> RedisKeyPrefix (h' ! a)
         = (if RedisKeyPrefix c = [] then RedisKeyPrefix p else RedisKeyPrefix c)
     \<and> MemoryCacheSize (h' ! a)
         = (if MemoryCacheSize c = 0 then MemoryCacheSize p else MemoryCacheSize c)
     \<and> RedisTTL (h' ! a) = (if RedisTTL c = 0 then RedisTTL p else RedisTTL c)
     \<and> TenantExtractionMode (h' ! a)
         = (if TenantExtractionMode c = [] then TenantExtractionMode p
            else TenantExtractionMode c)
     \<and> TenantHeaderName (h' ! a)
         = (if TenantHeaderName c = [] then TenantHeaderName p else TenantHeaderName c)
     \<and> RedisTimeout (h' ! a) = (if RedisTimeout c = 0 then RedisTimeout p else RedisTimeout c)
     \<and> S3Timeout (h' ! a) = (if S3Timeout c = 0 then S3Timeout p else S3Timeout c)"
proof -
  from assms(3) have b: "parent < length h" "child < length h"
    and a: "a = length h" and h': "h' = h @ [mergeConfig p c]"
    by (simp_all add: Merge_def p_def c_def split: if_splits)
  have new: "h' ! a = mergeConfig p c"
    using a h' by simp
  have old: "\<forall>i<length h. h' ! i = h ! i"
    using h' by (simp add: nth_append)
  have keep: "h' ! parent = p" "h' ! child = c"
    using old b by (simp_all add: p_def c_def)
  have len: "length h' = Suc (length h)"
    using h' by simp
  show ?thesis
    unfolding new mergeConfig_fields using a len old keep by (simp only: simp_thms)
qed

theorem Merge_zero_child_field_keeps_parent_witness:
  "Merge [exampleConfig, childConfig0] 0 1
     = Some (2, [exampleConfig, childConfig0, mergeConfig exampleConfig childConfig0])
   \<and> [exampleConfig, childConfig0, mergeConfig exampleConfig childConfig0] ! 0 = exampleConfig
   \<and> S3Bucket ([exampleConfig, childConfig0, mergeConfig exampleConfig childConfig0] ! 2)
       = ''other-bucket''
   \<and> RedisKeyPrefix ([exampleConfig, childConfig0, mergeConfig exampleConfig childConfig0] ! 2)
       = ''shard_router:''
   \<and> RedisTimeout ([exampleConfig, childConfig0, mergeConfig exampleConfig childConfig0] ! 2)
       = 2000000000
   \<and> MemoryCacheSize ([exampleConfig, childConfig0, mergeConfig exampleConfig childConfig0] ! 2)
       = 1000"
proof -
  have h: "Merge [exampleConfig, childConfig0] 0 1
     = Some (2, [exampleConfig, childConfig0, mergeConfig exampleConfig childConfig0])"
    by (simp add: Merge_def)
  have v: "S3Bucket childConfig0 = ''other-bucket''" "RedisKeyPrefix childConfig0 = []"
    "RedisTimeout childConfig0 = 0" "MemoryCacheSize childConfig0 = 0"
    "RedisKeyPrefix exampleConfig = ''shard_router:''" "RedisTimeout exampleConfig = 2000000000"
    "MemoryCacheSize exampleConfig = 1000"
    by (simp_all add: childConfig0_def exampleConfig_def)
  show ?thesis
    using h v Merge_zero_child_field_keeps_parent[OF h] by simp
qed

end
